theory Spec2Isabelle
  imports Complex_Main
begin

section \<open>Python strings and lists, as far as the SLURM clients use them\<close>

text \<open>
  A Python \<open>str\<close> is modelled as a \<open>string\<close>; a \<open>char\<close> stands for a code
  point below 256. The set below lists the code points below 256 for which
  \<open>str.isspace\<close> holds; \<open>str.strip()\<close> and \<open>str.split()\<close> (both without
  argument) work on exactly these.
\<close>

definition whitespace :: "char list" where
  "whitespace =
     [CHR 0x09, CHR 0x0A, CHR 0x0B, CHR 0x0C, CHR 0x0D, CHR 0x1C, CHR 0x1D, CHR 0x1E,
      CHR 0x1F, CHR 0x20, CHR 0x85, CHR 0xA0]"

definition isspace :: "char \<Rightarrow> bool" where
  "isspace c = (c \<in> set whitespace)"

text \<open>\<open>s.strip()\<close>: leading and trailing whitespace removed.\<close>

definition py_strip :: "string \<Rightarrow> string" where
  "py_strip s = rev (dropWhile isspace (rev (dropWhile isspace s)))"

text \<open>\<open>s.split()\<close>: the maximal runs of non-whitespace characters, in order.\<close>

function py_split :: "string \<Rightarrow> string list" where
  "py_split s =
     (let s' = dropWhile isspace s
      in if s' = [] then []
         else takeWhile (\<lambda>c. \<not> isspace c) s' # py_split (dropWhile (\<lambda>c. \<not> isspace c) s'))"
  by pat_completeness auto
termination
proof (relation "measure length")
  show "wf (measure length)" by simp
next
  fix s s' :: string
  assume s': "s' = dropWhile isspace s" and ne: "s' \<noteq> []"
  from ne obtain c cs where c: "s' = c # cs" by (cases s') auto
  from s' c have "\<not> isspace c" by (metis hd_dropWhile list.sel(1) ne)
  then have "length (dropWhile (\<lambda>c. \<not> isspace c) s') \<le> length cs"
    using c by (simp add: length_dropWhile_le)
  moreover have "length s' \<le> length s" using s' by (simp add: length_dropWhile_le)
  ultimately show "(dropWhile (\<lambda>c. \<not> isspace c) s', s) \<in> measure length"
    using c by simp
qed

declare py_split.simps [simp del]

text \<open>
  \<open>s.split("=")\<close>, the separator being a one-character string: the pieces between
  the occurrences of the separator, empty pieces included.
\<close>

fun py_split_char :: "char \<Rightarrow> string \<Rightarrow> string list" where
  "py_split_char sep [] = [[]]"
| "py_split_char sep (c # cs) =
     (if c = sep then [] # py_split_char sep cs
      else (case py_split_char sep cs of
              [] \<Rightarrow> [[c]]
            | x # xs \<Rightarrow> (c # x) # xs))"

text \<open>
  \<open>s.splitlines()\<close>: the line boundaries below 256 are LF, CR, CR LF (one boundary),
  VT, FF, FS, GS, RS and NEL; no empty last line is produced.
\<close>

definition linebreaks :: "char list" where
  "linebreaks = [CHR 0x0A, CHR 0x0D, CHR 0x0B, CHR 0x0C, CHR 0x1C, CHR 0x1D, CHR 0x1E, CHR 0x85]"

fun splitlines_from :: "string \<Rightarrow> string \<Rightarrow> string list" where
  "splitlines_from cur [] = (if cur = [] then [] else [cur])"
| "splitlines_from cur [c] = (if c \<in> set linebreaks then [cur] else [cur @ [c]])"
| "splitlines_from cur (c # d # cs) =
     (if c = CHR 0x0D \<and> d = CHR 0x0A then cur # splitlines_from [] cs
      else if c \<in> set linebreaks then cur # splitlines_from [] (d # cs)
      else splitlines_from (cur @ [c]) (d # cs))"

definition py_splitlines :: "string \<Rightarrow> string list" where
  "py_splitlines s = splitlines_from [] s"

text \<open>\<open>s.startswith(p)\<close> and \<open>sub in s\<close>.\<close>

fun startswith :: "string \<Rightarrow> string \<Rightarrow> bool" where
  "startswith s [] = True"
| "startswith [] (p # ps) = False"
| "startswith (c # cs) (p # ps) = (c = p \<and> startswith cs ps)"

fun contains :: "string \<Rightarrow> string \<Rightarrow> bool" where
  "contains [] sub = (sub = [])"
| "contains (c # cs) sub = (startswith (c # cs) sub \<or> contains cs sub)"

text \<open>
  \<open>s.replace(old, new)\<close>: every occurrence of \<open>old\<close>, found from the left without
  overlap, is replaced; an empty \<open>old\<close> matches before every character and at the end.
\<close>

function py_replace :: "string \<Rightarrow> string \<Rightarrow> string \<Rightarrow> string" where
  "py_replace s old new =
     (if old = [] then new @ concat (map (\<lambda>c. c # new) s)
      else if s = [] then []
      else if startswith s old then new @ py_replace (drop (length old) s) old new
      else hd s # py_replace (tl s) old new)"
  by pat_completeness auto
termination
  by (relation "measure (\<lambda>(s, old, new). length s)") (auto simp: neq_Nil_conv)

declare py_replace.simps [simp del]

text \<open>\<open>str(n)\<close> for an integer, and \<open>int(x)\<close> for a float (truncation towards zero).\<close>

definition digit :: "nat \<Rightarrow> char" where
  "digit d = ''0123456789'' ! d"

function str_nat :: "nat \<Rightarrow> string" where
  "str_nat n = (if n < 10 then [digit n] else str_nat (n div 10) @ [digit (n mod 10)])"
  by pat_completeness auto
termination
  by (relation "measure id") auto

declare str_nat.simps [simp del]

definition py_str :: "int \<Rightarrow> string" where
  "py_str n = (if n < 0 then CHR ''-'' # str_nat (nat (- n)) else str_nat (nat n))"

definition py_int :: "real \<Rightarrow> int" where
  "py_int x = (if 0 \<le> x then \<lfloor>x\<rfloor> else \<lceil>x\<rceil>)"

text \<open>
  Subtraction of two floats, as the IEEE 754 binary64 arithmetic of Python does it: the
  exact difference, rounded to the nearest double, a tie going to the even mantissa.
  A positive number \<open>x\<close> lies in the binade \<open>2 ^ e \<le> x < 2 ^ (e + 1)\<close>, where
  the doubles are the multiples of \<open>2 ^ (e - 52)\<close>; below \<open>2 ^ - 1022\<close> (the
  subnormal range) they are the multiples of \<open>2 ^ - 1074\<close>. Rounding is symmetric
  in the sign. A float is given by its value, a real number. Where the program gets an
  infinity, for a difference beyond the largest double, the model has a finite number of
  the same sign and beyond every double; the clients only compare a difference with 2 and
  with 5, which the two answer alike.
\<close>

definition round_even :: "real \<Rightarrow> int" where
  "round_even r =
     (if r - of_int \<lfloor>r\<rfloor> < 1 / 2 then \<lfloor>r\<rfloor>
      else if 1 / 2 < r - of_int \<lfloor>r\<rfloor> then \<lfloor>r\<rfloor> + 1
      else if even \<lfloor>r\<rfloor> then \<lfloor>r\<rfloor> else \<lfloor>r\<rfloor> + 1)"

definition binade :: "real \<Rightarrow> int" where
  "binade x = max \<lfloor>log 2 x\<rfloor> (- 1022)"

definition ulp :: "real \<Rightarrow> real" where
  "ulp x = 2 powr (of_int (binade x) - 52)"

definition round_pos :: "real \<Rightarrow> real" where
  "round_pos x = of_int (round_even (x / ulp x)) * ulp x"

definition round_double :: "real \<Rightarrow> real" where
  "round_double x = (if x = 0 then 0 else if x < 0 then - round_pos (- x) else round_pos x)"

definition float_sub :: "real \<Rightarrow> real \<Rightarrow> real" where
  "float_sub a b = round_double (a - b)"

text \<open>
  Exceptions are values. \<open>Exception\<close> is the plain class the clients raise themselves,
  \<open>IOError\<close> and \<open>IndexError\<close> are the two classes the clients catch by name, and
  \<open>OtherError\<close> stands for any other class (an SSH failure, a decoding error, a missing
  attribute). The payload is the text \<open>str(e)\<close>.
\<close>

datatype exn = Exception string | IOError string | IndexError string | OtherError string

fun exn_str :: "exn \<Rightarrow> string" where
  "exn_str (Exception m) = m"
| "exn_str (IOError m) = m"
| "exn_str (IndexError m) = m"
| "exn_str (OtherError m) = m"

text \<open>\<open>xs[i]\<close>: a negative index counts from the end; out of range raises.\<close>

definition py_getitem :: "'a list \<Rightarrow> int \<Rightarrow> exn + 'a" where
  "py_getitem xs i =
     (if 0 \<le> i \<and> i < int (length xs) then Inr (xs ! nat i)
      else if i < 0 \<and> - i \<le> int (length xs) then Inr (xs ! nat (int (length xs) + i))
      else Inl (IndexError ''list index out of range''))"

section \<open>MockSlurmClient\<close>

text \<open>
  The registry \<open>self.jobs\<close> maps a job id to a dictionary with the four keys
  \<open>status\<close>, \<open>script\<close>, \<open>submitted_at\<close> and \<open>output\<close>; \<open>submit_job\<close> is the
  only place that creates one, always with all four, so no lookup of a key in a record can
  fail. Timestamps (\<open>time.time()\<close>) are floats, and the elapsed time is their
  difference as float subtraction computes it. The two values the client reads from outside, the clock and
  the number drawn by \<open>random.randint(1000, 9999)\<close>, are arguments of the
  operations; they return the value the method returns together with the client after
  the call. None of the three methods has a statement that can raise.
\<close>

record job =
  status :: string
  script :: string
  submitted_at :: real
  "output" :: string

record MockSlurmClient =
  jobs :: "string \<rightharpoonup> job"

definition Mock_init :: MockSlurmClient where
  "Mock_init = \<lparr>jobs = Map.empty\<rparr>"

definition Mock_submit_job :: "MockSlurmClient \<Rightarrow> string \<Rightarrow> real \<Rightarrow> int \<Rightarrow> string \<times> MockSlurmClient" where
  "Mock_submit_job c script_content now r =
     (let job_id = py_str r
      in (job_id,
          c\<lparr>jobs := (jobs c)(job_id \<mapsto>
               \<lparr>status = ''PENDING'', script = script_content, submitted_at = now,
                output = ''''\<rparr>)\<rparr>))"

definition Mock_get_job_status :: "MockSlurmClient \<Rightarrow> string \<Rightarrow> real \<Rightarrow> string \<times> MockSlurmClient" where
  "Mock_get_job_status c job_id now =
     (case jobs c job_id of
        None \<Rightarrow> (''UNKNOWN'', c)
      | Some job \<Rightarrow>
          (let elapsed = float_sub now (submitted_at job)
           in if elapsed < 2 then
                (''PENDING'', c\<lparr>jobs := (jobs c)(job_id \<mapsto> job\<lparr>status := ''PENDING''\<rparr>)\<rparr>)
              else if elapsed < 5 then
                (''RUNNING'', c\<lparr>jobs := (jobs c)(job_id \<mapsto> job\<lparr>status := ''RUNNING''\<rparr>)\<rparr>)
              else
                (let job' =
                       (if output job = [] then
                          (if contains (script job) ''python''
                           then job\<lparr>output := ''Result: 42 (Mock Output)''\<rparr>
                           else job\<lparr>output := ''Job completed successfully.''\<rparr>)
                        else job)
                 in (''COMPLETED'',
                     c\<lparr>jobs := (jobs c)(job_id \<mapsto> job'\<lparr>status := ''COMPLETED''\<rparr>)\<rparr>))))"

definition Mock_get_job_output :: "MockSlurmClient \<Rightarrow> string \<Rightarrow> string" where
  "Mock_get_job_output c job_id =
     (case jobs c job_id of
        None \<Rightarrow> ''No output available.''
      | Some job \<Rightarrow> output job)"

text \<open>
  A session of a simulated client is a list of calls; each call carries what the client
  reads from outside during it.
\<close>

datatype mock_call =
  Submit string real int
| Status string real
| Output string

fun mock_step :: "MockSlurmClient \<Rightarrow> mock_call \<Rightarrow> string \<times> MockSlurmClient" where
  "mock_step c (Submit script_content now r) = Mock_submit_job c script_content now r"
| "mock_step c (Status job_id now) = Mock_get_job_status c job_id now"
| "mock_step c (Output job_id) = (Mock_get_job_output c job_id, c)"

fun mock_exec :: "MockSlurmClient \<Rightarrow> mock_call list \<Rightarrow> MockSlurmClient" where
  "mock_exec c [] = c"
| "mock_exec c (a # as) = mock_exec (snd (mock_step c a)) as"

fun mock_returns :: "MockSlurmClient \<Rightarrow> mock_call list \<Rightarrow> string list" where
  "mock_returns c [] = []"
| "mock_returns c (a # as) = fst (mock_step c a) # mock_returns (snd (mock_step c a)) as"

section \<open>ParamikoSlurmClient\<close>

text \<open>
  The remote host is what the client talks to through \<open>self.client\<close> and
  \<open>self.sftp\<close>: running a command gives an exit status with the decoded standard
  output and standard error, or raises; writing and reading a file through SFTP succeeds
  or raises. Of the client's own fields only \<open>job_files\<close> is read by the three
  operations. A client that never connected has no SFTP channel (\<open>self.sftp\<close> is
  \<open>None\<close>); for it every SFTP operation raises, which is one of the hosts the
  record describes. An operation returns what the method returns, or the exception it
  raises, together with the client after the call where the method can change it.
\<close>

record remote =
  exec_command :: "string \<Rightarrow> exn + (int \<times> string \<times> string)"
  sftp_write :: "string \<Rightarrow> string \<Rightarrow> exn option"
  sftp_read :: "string \<Rightarrow> exn + string"

record ParamikoSlurmClient =
  job_files :: "string \<rightharpoonup> string"

definition Paramiko_init :: ParamikoSlurmClient where
  "Paramiko_init = \<lparr>job_files = Map.empty\<rparr>"

definition run_command :: "remote \<Rightarrow> string \<Rightarrow> exn + (int \<times> string \<times> string)" where
  "run_command env command =
     (case exec_command env command of
        Inl e \<Rightarrow> Inl e
      | Inr (exit_status, out, err) \<Rightarrow> Inr (exit_status, py_strip out, py_strip err))"

text \<open>The loop of \<open>submit_job\<close> over the lines of the script, with its \<open>break\<close>.\<close>

fun scan_output_pattern :: "string list \<Rightarrow> string \<Rightarrow> exn + string" where
  "scan_output_pattern [] output_pattern = Inr output_pattern"
| "scan_output_pattern (line # rest) output_pattern =
     (if startswith (py_strip line) ''#SBATCH --output=''
      then py_getitem (py_split_char CHR ''='' (py_strip line)) 1
      else scan_output_pattern rest output_pattern)"

definition Paramiko_submit_job ::
  "ParamikoSlurmClient \<Rightarrow> remote \<Rightarrow> string \<Rightarrow> real \<Rightarrow> (exn + string) \<times> ParamikoSlurmClient" where
  "Paramiko_submit_job c env script_content now =
     (let filename = ''job_'' @ py_str (py_int now) @ ''.sh''
      in case sftp_write env filename script_content of
           Some e \<Rightarrow> (Inl (Exception (''Failed to upload script via SFTP: '' @ exn_str e)), c)
         | None \<Rightarrow>
             (case run_command env (''sbatch '' @ filename) of
                Inl e \<Rightarrow> (Inl e, c)
              | Inr (code, out, err) \<Rightarrow>
                  if code \<noteq> 0 then (Inl (Exception (''sbatch failed: '' @ err)), c)
                  else
                    (case py_getitem (py_split out) (- 1) of
                       Inl e \<Rightarrow>
                         (case e of
                            IndexError m \<Rightarrow>
                              (Inl (Exception
                                 (''Could not parse job ID from sbatch output: '' @ out)), c)
                          | _ \<Rightarrow> (Inl e, c))
                     | Inr job_id \<Rightarrow>
                         (case scan_output_pattern (py_splitlines script_content)
                                 ''slurm-%j.out'' of
                            Inl e \<Rightarrow> (Inl e, c)
                          | Inr output_pattern \<Rightarrow>
                              (Inr job_id,
                               c\<lparr>job_files := (job_files c)(job_id \<mapsto> output_pattern)\<rparr>)))))"

definition Paramiko_get_job_status :: "ParamikoSlurmClient \<Rightarrow> remote \<Rightarrow> string \<Rightarrow> exn + string" where
  "Paramiko_get_job_status c env job_id =
     (case run_command env (''squeue -j '' @ job_id @ '' -h -o %T'') of
        Inl e \<Rightarrow> Inl e
      | Inr (code, out, err) \<Rightarrow>
          if out = [] then
            (case run_command env (''sacct -j '' @ job_id @ '' -n -o State'') of
               Inl e \<Rightarrow> Inl e
             | Inr (code_sacct, out_sacct, err_sacct) \<Rightarrow>
                 if out_sacct \<noteq> [] then
                   (case py_getitem (py_split out_sacct) 0 of
                      Inl e \<Rightarrow> Inl e
                    | Inr word \<Rightarrow> Inr (py_strip word))
                 else Inr ''COMPLETED'')
          else Inr (py_strip out))"

text \<open>
  The retry loop of \<open>get_job_output\<close>, \<open>for i in range(max_retries)\<close>, as a
  recursion over the list of the remaining values of \<open>i\<close>. The remote host may answer
  differently at each attempt, so it is given per attempt. The last component of the
  result counts the seconds spent in \<open>time.sleep\<close>.
\<close>

fun get_job_output_loop ::
  "(nat \<Rightarrow> remote) \<Rightarrow> string \<Rightarrow> nat \<Rightarrow> nat list \<Rightarrow> nat \<Rightarrow> (exn + string) \<times> nat" where
  "get_job_output_loop env outfile max_retries [] slept =
     (Inr (''Output file '' @ outfile @ '' not found after retries.''), slept)"
| "get_job_output_loop env outfile max_retries (i # rest) slept =
     (case sftp_read (env i) outfile of
        Inr content \<Rightarrow> (Inr content, slept)
      | Inl e \<Rightarrow>
          (case e of
             IOError m \<Rightarrow>
               (case run_command (env i) (''cat '' @ outfile) of
                  Inl e' \<Rightarrow> (Inl e', slept)
                | Inr (code, out, err) \<Rightarrow>
                    if code = 0 then (Inr out, slept)
                    else get_job_output_loop env outfile max_retries rest
                           (if i < max_retries - 1 then slept + 3 else slept))
           | _ \<Rightarrow> (Inl e, slept)))"

definition Paramiko_get_job_output ::
  "ParamikoSlurmClient \<Rightarrow> (nat \<Rightarrow> remote) \<Rightarrow> string \<Rightarrow> (exn + string) \<times> nat" where
  "Paramiko_get_job_output c env job_id =
     (let pattern = (case job_files c job_id of None \<Rightarrow> ''slurm-%j.out'' | Some p \<Rightarrow> p);
          outfile = py_replace pattern ''%j'' job_id;
          max_retries = 10
      in get_job_output_loop env outfile max_retries [0..<max_retries] 0)"

section \<open>Notions used to state the properties\<close>

text \<open>
  A call issues an identifier when it is a \<open>submit_job\<close> that returns it, and polls an
  identifier when it is a \<open>get_job_status\<close> for it.
\<close>

fun issues :: "string \<Rightarrow> mock_call \<Rightarrow> bool" where
  "issues job_id (Submit script_content now r) = (py_str r = job_id)"
| "issues job_id (Status j now) = False"
| "issues job_id (Output j) = False"

fun polls :: "string \<Rightarrow> mock_call \<Rightarrow> bool" where
  "polls job_id (Status j now) = (j = job_id)"
| "polls job_id (Submit script_content now r) = False"
| "polls job_id (Output j) = False"

text \<open>
  The text that \<open>MockSlurmClient.get_job_status\<close> stores for a script when it
  first sees the job completed, and the invariant of the registry that goes with it.
\<close>

definition mock_output_for :: "string \<Rightarrow> string" where
  "mock_output_for s =
     (if contains s ''python'' then ''Result: 42 (Mock Output)'' else ''Job completed successfully.'')"

definition output_inv :: "MockSlurmClient \<Rightarrow> bool" where
  "output_inv c = (\<forall>job_id job. jobs c job_id = Some job \<longrightarrow>
     output job = [] \<or> output job = mock_output_for (script job))"

text \<open>
  An attempt of \<open>get_job_output\<close> fails, and is followed by the next one, when the
  SFTP read raises \<open>IOError\<close> and the \<open>cat\<close> command then ends with a non-zero
  exit status.
\<close>

definition attempt_fails :: "remote \<Rightarrow> string \<Rightarrow> bool" where
  "attempt_fails env outfile =
     (case sftp_read env outfile of
        Inl (IOError m) \<Rightarrow>
          (case exec_command env (''cat '' @ outfile) of
             Inr (code, out, err) \<Rightarrow> code \<noteq> 0
           | Inl e \<Rightarrow> False)
      | _ \<Rightarrow> False)"

text \<open>
  Some remote hosts, as seen by the client: one where the scheduler knows nothing of the
  job and no file exists; one whose accounting reports the job as failed; one that
  accepts a submission as job 77 and shows it running.
\<close>

definition quiet_remote :: remote where
  "quiet_remote =
     \<lparr>exec_command = (\<lambda>command.
        if startswith command ''cat '' then Inr (1, [], ''cat: No such file or directory'' @ [CHR 0x0A])
        else Inr (0, [], [])),
      sftp_write = (\<lambda>filename content. None),
      sftp_read = (\<lambda>filename. Inl (IOError ''[Errno 2] No such file''))\<rparr>"

definition failed_remote :: remote where
  "failed_remote =
     \<lparr>exec_command = (\<lambda>command.
        if startswith command ''sacct '' then Inr (0, ''    FAILED '' @ [CHR 0x0A] @ ''    FAILED '' @ [CHR 0x0A], [])
        else Inr (0, [], [])),
      sftp_write = (\<lambda>filename content. None),
      sftp_read = (\<lambda>filename. Inl (IOError ''[Errno 2] No such file''))\<rparr>"

definition running_remote :: remote where
  "running_remote =
     \<lparr>exec_command = (\<lambda>command.
        if startswith command ''squeue '' then Inr (0, ''RUNNING'' @ [CHR 0x0A], [])
        else if startswith command ''sbatch '' then Inr (0, ''Submitted batch job 77'' @ [CHR 0x0A], [])
        else Inr (0, [], [])),
      sftp_write = (\<lambda>filename content. None),
      sftp_read = (\<lambda>filename. Inl (IOError ''[Errno 2] No such file''))\<rparr>"

text \<open>
  Two hosts on which the output file can be read: one through SFTP, one only through
  the \<open>cat\<close> command.
\<close>

definition ready_remote :: remote where
  "ready_remote =
     \<lparr>exec_command = (\<lambda>command. Inr (0, [], [])),
      sftp_write = (\<lambda>filename content. None),
      sftp_read = (\<lambda>filename. Inr (''hello'' @ [CHR 0x0A]))\<rparr>"

definition cat_remote :: remote where
  "cat_remote =
     \<lparr>exec_command = (\<lambda>command. Inr (0, ''hello'' @ [CHR 0x0A], [])),
      sftp_write = (\<lambda>filename content. None),
      sftp_read = (\<lambda>filename. Inl (IOError ''Failure''))\<rparr>"

text \<open>
  A host on which the output file does not exist and running a command raises.
\<close>

definition cat_raises_remote :: remote where
  "cat_raises_remote =
     \<lparr>exec_command = (\<lambda>command. Inl (OtherError ''SSH session not active'')),
      sftp_write = (\<lambda>filename content. None),
      sftp_read = (\<lambda>filename. Inl (IOError ''[Errno 2] No such file''))\<rparr>"

text \<open>
  Two scripts, with and without an output directive, and a host whose scheduler rejects
  every submission.
\<close>

definition custom_script :: string where
  "custom_script =
     ''#!/bin/bash'' @ [CHR 0x0A] @
     ''#SBATCH --job-name=demo'' @ [CHR 0x0A] @
     ''#SBATCH --output=custom-%j.log'' @ [CHR 0x0A] @
     ''echo hello'' @ [CHR 0x0A]"

definition plain_script :: string where
  "plain_script = ''#!/bin/bash'' @ [CHR 0x0A] @ ''echo hello'' @ [CHR 0x0A]"

definition rejecting_remote :: remote where
  "rejecting_remote =
     \<lparr>exec_command = (\<lambda>command.
        Inr (1, [], ''sbatch: error: invalid partition specified'' @ [CHR 0x0A])),
      sftp_write = (\<lambda>filename content. None),
      sftp_read = (\<lambda>filename. Inl (IOError ''[Errno 2] No such file''))\<rparr>"


text \<open>
  Of the three operations of the remote client only \<open>submit_job\<close> changes the
  client, so the state after a session is the state after its submissions.
\<close>

fun Paramiko_exec :: "ParamikoSlurmClient \<Rightarrow> (remote \<times> string \<times> real) list \<Rightarrow> ParamikoSlurmClient" where
  "Paramiko_exec c [] = c"
| "Paramiko_exec c ((env, script_content, now) # rest) =
     Paramiko_exec (snd (Paramiko_submit_job c env script_content now)) rest"

fun Paramiko_returns :: "ParamikoSlurmClient \<Rightarrow> (remote \<times> string \<times> real) list \<Rightarrow> (exn + string) list" where
  "Paramiko_returns c [] = []"
| "Paramiko_returns c ((env, script_content, now) # rest) =
     fst (Paramiko_submit_job c env script_content now)
       # Paramiko_returns (snd (Paramiko_submit_job c env script_content now)) rest"

text \<open>A host whose SSH session has dropped: every operation raises.\<close>

definition dropped_remote :: remote where
  "dropped_remote =
     \<lparr>exec_command = (\<lambda>command. Inl (OtherError ''SSH session not active'')),
      sftp_write = (\<lambda>filename content. Some (OtherError ''SSH session not active'')),
      sftp_read = (\<lambda>filename. Inl (OtherError ''SSH session not active''))\<rparr>"

section \<open>Facts about the string functions\<close>

lemma str_nat_nonempty: "str_nat n \<noteq> []"
  by (subst str_nat.simps) simp

lemma digit_inj: "a < 10 \<Longrightarrow> b < 10 \<Longrightarrow> digit a = digit b \<Longrightarrow> a = b"
proof -
  assume a: "a < 10" and b: "b < 10" and e: "digit a = digit b"
  have d: "distinct ''0123456789''" by simp
  have "length ''0123456789'' = 10" by simp
  with a b d e show "a = b"
    unfolding digit_def by (metis nth_eq_iff_index_eq)
qed

lemma str_nat_inj: "str_nat n = str_nat m \<Longrightarrow> n = m"
proof (induction n arbitrary: m rule: str_nat.induct)
  case (1 n)
  show ?case
  proof (cases "n < 10")
    case True
    note n = this
    show ?thesis
    proof (cases "m < 10")
      case True
      with n "1.prems" show ?thesis
        by (simp add: str_nat.simps [of n] str_nat.simps [of m] digit_inj)
    next
      case False
      with n "1.prems" show ?thesis
        using str_nat_nonempty [of "m div 10"]
        by (simp add: str_nat.simps [of n] str_nat.simps [of m])
    qed
  next
    case False
    note n = this
    show ?thesis
    proof (cases "m < 10")
      case True
      with n "1.prems" show ?thesis
        using str_nat_nonempty [of "n div 10"]
        by (simp add: str_nat.simps [of n] str_nat.simps [of m])
    next
      case False
      with n "1.prems" have e: "str_nat (n div 10) = str_nat (m div 10)"
        and d: "digit (n mod 10) = digit (m mod 10)"
        by (simp_all add: str_nat.simps [of n] str_nat.simps [of m])
      from "1.IH" [OF n e] have "n div 10 = m div 10" .
      moreover from d have "n mod 10 = m mod 10" by (intro digit_inj) simp_all
      ultimately show ?thesis by (metis div_mult_mod_eq)
    qed
  qed
qed

lemma str_nat_no_minus: "CHR ''-'' \<notin> set (str_nat n)"
proof (induction n rule: str_nat.induct)
  case (1 n)
  have dg: "\<And>d. d < 10 \<Longrightarrow> digit d \<noteq> CHR ''-''"
  proof -
    fix d :: nat assume "d < 10"
    then have "d \<in> {0,1,2,3,4,5,6,7,8,9}" by auto
    then show "digit d \<noteq> CHR ''-''" unfolding digit_def by auto
  qed
  show ?case
  proof (cases "n < 10")
    case True
    then show ?thesis by (simp add: str_nat.simps [of n] dg [THEN not_sym])
  next
    case False
    with 1 show ?thesis by (simp add: str_nat.simps [of n] dg [THEN not_sym])
  qed
qed

lemma py_str_inj: "py_str a = py_str b \<Longrightarrow> a = b"
proof -
  assume e: "py_str a = py_str b"
  have hd_nat: "\<And>n. hd (str_nat n) \<noteq> CHR ''-''"
    using str_nat_no_minus str_nat_nonempty by (metis hd_in_set)
  show "a = b"
  proof (cases "a < 0"; cases "b < 0")
    assume "a < 0" "b < 0"
    with e have "nat (- a) = nat (- b)" by (simp add: py_str_def str_nat_inj)
    with \<open>a < 0\<close> \<open>b < 0\<close> show ?thesis by simp
  next
    assume "a < 0" "\<not> b < 0"
    with e have "CHR ''-'' # str_nat (nat (- a)) = str_nat (nat b)" by (simp add: py_str_def)
    then have "hd (str_nat (nat b)) = CHR ''-''" by (metis list.sel(1))
    with hd_nat show ?thesis by blast
  next
    assume "\<not> a < 0" "b < 0"
    with e have "CHR ''-'' # str_nat (nat (- b)) = str_nat (nat a)" by (simp add: py_str_def)
    then have "hd (str_nat (nat a)) = CHR ''-''" by (metis list.sel(1))
    with hd_nat show ?thesis by blast
  next
    assume "\<not> a < 0" "\<not> b < 0"
    with e have "nat a = nat b" by (simp add: py_str_def str_nat_inj)
    with \<open>\<not> a < 0\<close> \<open>\<not> b < 0\<close> show ?thesis by simp
  qed
qed

lemma py_strip_Nil: "py_strip [] = []"
  by (simp add: py_strip_def)

lemma py_strip_ends:
  assumes "py_strip s \<noteq> []"
  shows "\<not> isspace (hd (py_strip s))" and "\<not> isspace (last (py_strip s))"
proof -
  let ?s1 = "dropWhile isspace s"
  let ?t = "dropWhile isspace (rev ?s1)"
  have st: "py_strip s = rev ?t" by (simp add: py_strip_def)
  with assms have t: "?t \<noteq> []" by simp
  then have "\<not> isspace (hd ?t)" by (rule hd_dropWhile)
  with t st show "\<not> isspace (last (py_strip s))" by (simp add: last_rev)
  have "?s1 = rev ?t @ rev (takeWhile isspace (rev ?s1))"
    by (metis rev_append rev_rev_ident takeWhile_dropWhile_id)
  then have s1: "?s1 = py_strip s @ rev (takeWhile isspace (rev ?s1))"
    by (simp only: st)
  with assms have "?s1 \<noteq> []" by (metis append_is_Nil_conv)
  then have "\<not> isspace (hd ?s1)" by (rule hd_dropWhile)
  moreover from s1 assms have "hd ?s1 = hd (py_strip s)" by (metis hd_append2)
  ultimately show "\<not> isspace (hd (py_strip s))" by simp
qed

lemma py_strip_fix:
  assumes "s \<noteq> []" "\<not> isspace (hd s)" "\<not> isspace (last s)"
  shows "py_strip s = s"
proof -
  from assms(1,2) have a: "dropWhile isspace s = s" by (cases s) auto
  from assms(1,3) have "dropWhile isspace (rev s) = rev s"
    by (cases "rev s") (auto simp: hd_rev)
  with a show ?thesis by (simp add: py_strip_def)
qed

lemma py_strip_idem: "py_strip (py_strip s) = py_strip s"
proof (cases "py_strip s = []")
  case True
  then show ?thesis by (simp add: py_strip_Nil)
next
  case False
  from py_strip_fix [OF False py_strip_ends [OF False]] show ?thesis .
qed

lemma py_strip_token: "w \<noteq> [] \<Longrightarrow> \<forall>c\<in>set w. \<not> isspace c \<Longrightarrow> py_strip w = w"
  by (rule py_strip_fix) simp_all

lemma py_split_Cons:
  assumes "s \<noteq> []" "\<not> isspace (hd s)"
  shows "py_split s = takeWhile (\<lambda>c. \<not> isspace c) s # py_split (dropWhile (\<lambda>c. \<not> isspace c) s)"
proof -
  from assms have "dropWhile isspace s = s" by (cases s) auto
  with assms(1) show ?thesis by (subst py_split.simps) (simp add: Let_def)
qed

lemma py_split_strip_first:
  assumes "py_strip s \<noteq> []"
  shows "py_getitem (py_split (py_strip s)) 0 = Inr (takeWhile (\<lambda>c. \<not> isspace c) (py_strip s))"
    and "py_strip (takeWhile (\<lambda>c. \<not> isspace c) (py_strip s)) = takeWhile (\<lambda>c. \<not> isspace c) (py_strip s)"
proof -
  let ?w = "takeWhile (\<lambda>c. \<not> isspace c) (py_strip s)"
  from py_split_Cons [OF assms py_strip_ends(1) [OF assms]]
  show "py_getitem (py_split (py_strip s)) 0 = Inr ?w" by (simp add: py_getitem_def)
  from assms py_strip_ends(1) [OF assms] have "?w \<noteq> []" by (cases "py_strip s") auto
  moreover have "\<forall>c\<in>set ?w. \<not> isspace c" by (auto dest: set_takeWhileD)
  ultimately show "py_strip ?w = ?w" by (rule py_strip_token)
qed

lemma py_getitem_last: "xs \<noteq> [] \<Longrightarrow> py_getitem xs (- 1) = Inr (last xs)"
proof -
  assume ne: "xs \<noteq> []"
  then obtain y ys where xs: "xs = y # ys" by (cases xs) auto
  have "last xs = xs ! (length xs - 1)" using ne by (rule last_conv_nth)
  then show ?thesis by (simp add: py_getitem_def xs)
qed

lemma py_getitem_last_Nil: "py_getitem [] (- 1) = Inl (IndexError ''list index out of range'')"
  by (simp add: py_getitem_def)

lemma run_command_Inr:
  "run_command env command = Inr (code, out, err) \<longleftrightarrow>
     (\<exists>raw_out raw_err. exec_command env command = Inr (code, raw_out, raw_err) \<and>
        out = py_strip raw_out \<and> err = py_strip raw_err)"
  by (auto simp: run_command_def split: sum.splits)

lemma startswith_iff: "startswith s p \<longleftrightarrow> (\<exists>r. s = p @ r)"
  by (induction s p rule: startswith.induct) auto

lemma py_split_char_not_Nil: "py_split_char sep s \<noteq> []"
  by (induction s) (auto split: list.splits)

lemma py_split_char_hd: "hd (py_split_char sep s) = takeWhile (\<lambda>c. c \<noteq> sep) s"
  by (induction s) (auto split: list.splits simp: py_split_char_not_Nil)

lemma py_split_char_append:
  "sep \<notin> set a \<Longrightarrow> py_split_char sep (a @ sep # rest) = a # py_split_char sep rest"
  by (induction a) (auto split: list.splits simp: py_split_char_not_Nil)

lemma py_getitem_directive:
  "py_getitem (py_split_char CHR ''='' (''#SBATCH --output='' @ v)) 1 = Inr (takeWhile (\<lambda>c. c \<noteq> CHR ''='') v)"
proof -
  have "py_split_char CHR ''='' (''#SBATCH --output'' @ CHR ''='' # v)
          = ''#SBATCH --output'' # py_split_char CHR ''='' v"
    by (rule py_split_char_append) simp
  moreover obtain x xs where x: "py_split_char CHR ''='' v = x # xs"
    using py_split_char_not_Nil [of "CHR ''=''" v] by (cases "py_split_char CHR ''='' v") auto
  moreover from x py_split_char_hd [of "CHR ''=''" v] have "x = takeWhile (\<lambda>c. c \<noteq> CHR ''='') v"
    by simp
  ultimately show ?thesis by (simp add: py_getitem_def)
qed



lemma scan_output_pattern_total: "\<exists>p. scan_output_pattern lines d = Inr p"
proof (induction lines)
  case Nil
  show ?case by simp
next
  case (Cons line lines)
  show ?case
  proof (cases "startswith (py_strip line) ''#SBATCH --output=''")
    case True
    then obtain v where "py_strip line = ''#SBATCH --output='' @ v"
      using startswith_iff by blast
    with True py_getitem_directive [of v] show ?thesis by simp
  next
    case False
    with Cons show ?thesis by simp
  qed
qed

lemma contains_append: "contains (a @ s @ b) s"
proof (induction a)
  case Nil
  have "startswith (s @ b) s" by (simp add: startswith_iff)
  then show ?case by (cases "s @ b") (simp_all)
next
  case (Cons c a)
  then show ?case by simp
qed

section \<open>Facts about float subtraction\<close>


lemma round_even_of_int: "round_even (of_int k) = k"
  by (simp add: round_even_def)




lemma ulp_pos: "0 < ulp x"
  by (simp add: ulp_def)







lemma round_pos_exact:
  assumes "0 < x" "x = of_int m * ulp x"
  shows "round_pos x = x"
proof -
  from assms(2) have "x / ulp x = of_int m" using ulp_pos [of x] by (simp add: field_simps)
  then show ?thesis using assms(2) by (simp add: round_pos_def round_even_of_int)
qed

lemma round_double_of_int:
  assumes "0 < n" "n < 2 ^ 53"
  shows "round_double (of_int n) = of_int n"
proof -
  let ?x = "real_of_int n"
  let ?e = "\<lfloor>log 2 ?x\<rfloor>"
  from assms(1) have x1: "1 \<le> ?x" by simp
  then have x0: "0 < ?x" by simp
  from x1 have "0 \<le> log 2 ?x" by simp
  then have e0: "0 \<le> ?e" by simp
  then have b: "binade ?x = ?e" by (simp add: binade_def)
  from assms(2) have "?x < 2 ^ 53" by (metis of_int_less_iff of_int_numeral of_int_power)
  then have "?x < 2 powr 53" by simp
  then have "log 2 ?x < 53" using x0 by (simp add: log_less_iff)
  then have e52: "?e \<le> 52" by linarith
  define k where "k = nat (52 - ?e)"
  from e52 have ke: "of_int ?e - 52 = - real k" by (simp add: k_def)
  have u: "ulp ?x = 1 / 2 ^ k"
    by (simp add: ulp_def b ke powr_minus powr_realpow inverse_eq_divide del: of_int_floor_cancel)
  have "?x = of_int (n * 2 ^ k) * ulp ?x" by (simp add: u)
  with x0 have "round_pos ?x = ?x" by (rule round_pos_exact)
  with x0 show ?thesis by (simp add: round_double_def)
qed

lemma round_double_numerals:
  "round_double 1 = 1" "round_double 2 = 2" "round_double 3 = 3" "round_double 5 = 5"
  "round_double 6 = 6" "round_double 7 = 7"
  using round_double_of_int [of 1] round_double_of_int [of 2] round_double_of_int [of 3]
    round_double_of_int [of 5] round_double_of_int [of 6] round_double_of_int [of 7]
  by simp_all



lemma float_sub_examples:
  "float_sub 101 100 = 1" "float_sub 103 100 = 3" "float_sub 106 100 = 6"
  "float_sub 107 100 = 7" "float_sub 108 107 = 1"
  by (simp_all add: float_sub_def round_double_numerals)

section \<open>Facts about the simulated client\<close>

lemma mock_output_for_nonempty: "mock_output_for s \<noteq> []"
  by (simp add: mock_output_for_def)

lemma Mock_status_cases:
  assumes "jobs c job_id = Some job"
  shows "fst (Mock_get_job_status c job_id now) =
           (if float_sub now (submitted_at job) < 2 then ''PENDING''
            else if float_sub now (submitted_at job) < 5 then ''RUNNING'' else ''COMPLETED'')"
  using assms by (simp add: Mock_get_job_status_def Let_def)

lemma Mock_status_other:
  "j \<noteq> job_id \<Longrightarrow> jobs (snd (Mock_get_job_status c j now)) job_id = jobs c job_id"
  by (simp add: Mock_get_job_status_def Let_def split: option.splits)

lemma Mock_status_same:
  assumes "jobs c job_id = Some job"
  shows "\<exists>job'. jobs (snd (Mock_get_job_status c job_id now)) job_id = Some job' \<and>
           script job' = script job \<and> submitted_at job' = submitted_at job \<and>
           output job' =
             (if float_sub now (submitted_at job) < 5 \<or> output job \<noteq> [] then output job
              else mock_output_for (script job))"
  using assms by (simp add: Mock_get_job_status_def Let_def mock_output_for_def)

lemma Mock_submit_other:
  "py_str r \<noteq> job_id \<Longrightarrow> jobs (snd (Mock_submit_job c s now r)) job_id = jobs c job_id"
  by (simp add: Mock_submit_job_def Let_def)

lemma Mock_submit_same:
  "jobs (snd (Mock_submit_job c s now r)) (py_str r) =
     Some \<lparr>status = ''PENDING'', script = s, submitted_at = now, output = ''''\<rparr>"
  by (simp add: Mock_submit_job_def Let_def)

lemma mock_step_keeps_key:
  "jobs c job_id \<noteq> None \<Longrightarrow> jobs (snd (mock_step c a)) job_id \<noteq> None"
proof (cases a)
  case (Submit s now r)
  assume "jobs c job_id \<noteq> None"
  then show ?thesis using Submit
    by (cases "py_str r = job_id") (simp_all add: Mock_submit_job_def Let_def)
next
  case (Status j now)
  assume k: "jobs c job_id \<noteq> None"
  show ?thesis
  proof (cases "j = job_id")
    case True
    from k obtain job where "jobs c job_id = Some job" by auto
    from Mock_status_same [OF this, of now] show ?thesis using Status True by auto
  next
    case False
    with k Status show ?thesis by (simp add: Mock_status_other)
  qed
next
  case (Output j)
  assume "jobs c job_id \<noteq> None"
  then show ?thesis using Output by simp
qed

lemma mock_exec_keeps_key:
  "jobs c job_id \<noteq> None \<Longrightarrow> jobs (mock_exec c calls) job_id \<noteq> None"
proof (induction calls arbitrary: c)
  case Nil
  then show ?case by simp
next
  case (Cons a as)
  from Cons.prems have "jobs (snd (mock_step c a)) job_id \<noteq> None"
    by (rule mock_step_keeps_key)
  then have "jobs (mock_exec (snd (mock_step c a)) as) job_id \<noteq> None"
    by (rule Cons.IH)
  then show ?case by simp
qed

lemma mock_step_not_issued:
  "\<not> issues job_id a \<Longrightarrow> jobs c job_id = None \<Longrightarrow> jobs (snd (mock_step c a)) job_id = None"
proof (cases a)
  case (Submit s now r)
  assume "\<not> issues job_id a" "jobs c job_id = None"
  with Submit show ?thesis by (simp add: Mock_submit_other)
next
  case (Status j now)
  assume "\<not> issues job_id a" and n: "jobs c job_id = None"
  show ?thesis
  proof (cases "j = job_id")
    case True
    with n Status show ?thesis by (simp add: Mock_get_job_status_def)
  next
    case False
    with n Status show ?thesis by (simp add: Mock_status_other)
  qed
next
  case (Output j)
  assume "\<not> issues job_id a" "jobs c job_id = None"
  with Output show ?thesis by simp
qed

lemma mock_exec_not_issued:
  "\<forall>a\<in>set calls. \<not> issues job_id a \<Longrightarrow> jobs c job_id = None \<Longrightarrow>
     jobs (mock_exec c calls) job_id = None"
  by (induction calls arbitrary: c) (simp_all add: mock_step_not_issued)

lemma output_inv_step: "output_inv c \<Longrightarrow> output_inv (snd (mock_step c a))"
proof (cases a)
  case (Submit s now r)
  assume "output_inv c"
  then show ?thesis using Submit
    by (auto simp: output_inv_def Mock_submit_job_def Let_def)
next
  case (Status j now)
  assume i: "output_inv c"
  show ?thesis unfolding output_inv_def
  proof (intro allI impI)
    fix job_id job
    assume s: "jobs (snd (mock_step c a)) job_id = Some job"
    show "output job = [] \<or> output job = mock_output_for (script job)"
    proof (cases "j = job_id")
      case False
      with s Status have "jobs c job_id = Some job" by (simp add: Mock_status_other)
      with i show ?thesis by (simp add: output_inv_def)
    next
      case True
      show ?thesis
      proof (cases "jobs c job_id")
        case None
        with s Status True have "jobs c job_id = Some job"
          by (simp add: Mock_get_job_status_def)
        with None show ?thesis by simp
      next
        case (Some job0)
        from i Some have o: "output job0 = [] \<or> output job0 = mock_output_for (script job0)"
          by (simp add: output_inv_def)
        from Mock_status_same [OF Some, of now] s Status True o show ?thesis
          by (auto split: if_splits)
      qed
    qed
  qed
next
  case (Output j)
  assume "output_inv c"
  then show ?thesis using Output by simp
qed

lemma output_inv_exec: "output_inv c \<Longrightarrow> output_inv (mock_exec c calls)"
  by (induction calls arbitrary: c) (simp_all add: output_inv_step)

lemma output_inv_init: "output_inv Mock_init"
  by (simp add: output_inv_def Mock_init_def)

lemma output_kept_step:
  assumes "jobs c job_id = Some job" "output job = v" "v \<noteq> []" "\<not> issues job_id a"
  shows "\<exists>job'. jobs (snd (mock_step c a)) job_id = Some job' \<and> output job' = v"
proof (cases a)
  case (Submit s now r)
  with assms show ?thesis by (simp add: Mock_submit_other)
next
  case (Status j now)
  show ?thesis
  proof (cases "j = job_id")
    case True
    from Mock_status_same [OF assms(1), of now] assms(2,3) Status True show ?thesis by auto
  next
    case False
    with assms Status show ?thesis by (simp add: Mock_status_other)
  qed
next
  case (Output j)
  with assms show ?thesis by simp
qed

lemma output_kept_exec:
  assumes "jobs c job_id = Some job" "output job = v" "v \<noteq> []" "\<forall>a\<in>set calls. \<not> issues job_id a"
  shows "\<exists>job'. jobs (mock_exec c calls) job_id = Some job' \<and> output job' = v"
  using assms
proof (induction calls arbitrary: c job)
  case Nil
  then show ?case by simp
next
  case (Cons a as)
  from Cons.prems have "\<not> issues job_id a" by simp
  from output_kept_step [OF Cons.prems(1,2,3) this]
  obtain job' where j: "jobs (snd (mock_step c a)) job_id = Some job'" "output job' = v" by blast
  from Cons.prems have "\<forall>a\<in>set as. \<not> issues job_id a" by simp
  from Cons.IH [OF j Cons.prems(3) this] show ?case by simp
qed

text \<open>
  While no poll of a job has returned COMPLETED, its stored output stays empty.
\<close>

lemma empty_output_step:
  assumes "jobs c job_id = Some job" "output job = []"
    and "polls job_id a \<longrightarrow> fst (mock_step c a) \<noteq> ''COMPLETED''"
  shows "\<exists>job'. jobs (snd (mock_step c a)) job_id = Some job' \<and> output job' = []"
proof (cases a)
  case (Submit s now r)
  show ?thesis
  proof (cases "py_str r = job_id")
    case True
    with Submit Mock_submit_same [of c s now r] show ?thesis by simp
  next
    case False
    with Submit assms show ?thesis by (simp add: Mock_submit_other)
  qed
next
  case (Status j now)
  show ?thesis
  proof (cases "j = job_id")
    case True
    with assms(3) Status Mock_status_cases [OF assms(1), of now]
    have "float_sub now (submitted_at job) < 5" by (auto split: if_splits)
    with Mock_status_same [OF assms(1), of now] assms(2) Status True show ?thesis by auto
  next
    case False
    with assms Status show ?thesis by (simp add: Mock_status_other)
  qed
next
  case (Output j)
  with assms show ?thesis by simp
qed

lemma empty_output_exec:
  assumes "jobs c job_id = Some job" "output job = []"
    and "\<forall>(a, ret)\<in>set (zip calls (mock_returns c calls)). polls job_id a \<longrightarrow> ret \<noteq> ''COMPLETED''"
  shows "\<exists>job'. jobs (mock_exec c calls) job_id = Some job' \<and> output job' = []"
  using assms
proof (induction calls arbitrary: c job)
  case Nil
  then show ?case by simp
next
  case (Cons a as)
  from Cons.prems(3) have "polls job_id a \<longrightarrow> fst (mock_step c a) \<noteq> ''COMPLETED''" by simp
  from empty_output_step [OF Cons.prems(1,2) this]
  obtain job' where j: "jobs (snd (mock_step c a)) job_id = Some job'" "output job' = []" by blast
  from Cons.prems(3)
  have "\<forall>(a, ret)\<in>set (zip as (mock_returns (snd (mock_step c a)) as)).
          polls job_id a \<longrightarrow> ret \<noteq> ''COMPLETED''" by simp
  from Cons.IH [OF j this] show ?case by simp
qed

lemma job_kept_step:
  assumes "jobs c job_id = Some job" "\<not> issues job_id a"
  shows "\<exists>job'. jobs (snd (mock_step c a)) job_id = Some job' \<and>
           script job' = script job \<and> submitted_at job' = submitted_at job"
proof (cases a)
  case (Submit s now r)
  with assms show ?thesis by (simp add: Mock_submit_other)
next
  case (Status j now)
  show ?thesis
  proof (cases "j = job_id")
    case True
    from Mock_status_same [OF assms(1), of now] Status True show ?thesis by auto
  next
    case False
    with assms Status show ?thesis by (simp add: Mock_status_other)
  qed
next
  case (Output j)
  with assms show ?thesis by simp
qed

lemma job_kept_exec:
  assumes "jobs c job_id = Some job" "\<forall>a\<in>set later. \<not> issues job_id a"
  shows "\<exists>job'. jobs (mock_exec c later) job_id = Some job' \<and>
           script job' = script job \<and> submitted_at job' = submitted_at job"
  using assms
proof (induction later arbitrary: c job)
  case Nil
  then show ?case by simp
next
  case (Cons a later)
  from Cons.prems(2) have na: "\<not> issues job_id a"
    and rest: "\<forall>a\<in>set later. \<not> issues job_id a" by simp_all
  from job_kept_step [OF Cons.prems(1) na] obtain job' where
    j: "jobs (snd (mock_step c a)) job_id = Some job'"
    and k: "script job' = script job" "submitted_at job' = submitted_at job" by blast
  from Cons.IH [OF j rest] k show ?case by simp
qed



section \<open>Facts about the remote client\<close>

lemma Paramiko_status_queue:
  assumes "run_command env (''squeue -j '' @ job_id @ '' -h -o %T'') = Inr (code, out, err)"
    and "out \<noteq> []"
  shows "Paramiko_get_job_status c env job_id = Inr out"
proof -
  from assms(1) obtain raw where "out = py_strip raw" by (auto simp: run_command_Inr)
  then have "py_strip out = out" by (simp add: py_strip_idem)
  with assms show ?thesis by (simp add: Paramiko_get_job_status_def)
qed

lemma Paramiko_status_accounting:
  assumes "run_command env (''squeue -j '' @ job_id @ '' -h -o %T'') = Inr (code, [], err)"
    and "run_command env (''sacct -j '' @ job_id @ '' -n -o State'') = Inr (code2, out2, err2)"
    and "out2 \<noteq> []"
  shows "py_split out2 \<noteq> []" and "Paramiko_get_job_status c env job_id = Inr (hd (py_split out2))"
proof -
  from assms(2) obtain raw where r: "out2 = py_strip raw" by (auto simp: run_command_Inr)
  with assms(3) have ne: "py_strip raw \<noteq> []" by simp
  from py_split_Cons [OF ne py_strip_ends(1) [OF ne]] r
  have h: "py_split out2 \<noteq> []" "hd (py_split out2) = takeWhile (\<lambda>c. \<not> isspace c) out2"
    by simp_all
  from h show "py_split out2 \<noteq> []" by simp
  from py_split_strip_first [OF ne] r h assms
  show "Paramiko_get_job_status c env job_id = Inr (hd (py_split out2))"
    by (simp add: Paramiko_get_job_status_def)
qed

lemma Paramiko_status_fallback:
  assumes "run_command env (''squeue -j '' @ job_id @ '' -h -o %T'') = Inr (code, [], err)"
    and "run_command env (''sacct -j '' @ job_id @ '' -n -o State'') = Inr (code2, [], err2)"
  shows "Paramiko_get_job_status c env job_id = Inr ''COMPLETED''"
  using assms by (simp add: Paramiko_get_job_status_def)

lemma attempt_fails_iff:
  "attempt_fails env outfile \<longleftrightarrow>
     (\<exists>m. sftp_read env outfile = Inl (IOError m)) \<and>
     (\<exists>code out err. run_command env (''cat '' @ outfile) = Inr (code, out, err) \<and> code \<noteq> 0)"
  by (auto simp: attempt_fails_def run_command_def split: sum.splits exn.splits)

lemma loop_failed_attempt:
  assumes "attempt_fails (env i) outfile"
  shows "get_job_output_loop env outfile max_retries (i # rest) slept =
           get_job_output_loop env outfile max_retries rest
             (if i < max_retries - 1 then slept + 3 else slept)"
  using assms by (auto simp: attempt_fails_iff)

lemma loop_failed_prefix:
  assumes "\<forall>i\<in>set before. attempt_fails (env i) outfile"
  shows "get_job_output_loop env outfile max_retries (before @ rest) slept =
           get_job_output_loop env outfile max_retries rest
             (slept + 3 * length (filter (\<lambda>i. i < max_retries - 1) before))"
  using assms
proof (induction before arbitrary: slept)
  case Nil
  show ?case by simp
next
  case (Cons i before)
  from Cons.prems have f: "attempt_fails (env i) outfile"
    and r: "\<forall>i\<in>set before. attempt_fails (env i) outfile" by simp_all
  show ?case
    by (simp only: append_Cons loop_failed_attempt [where env=env and i=i, OF f] Cons.IH [OF r])
      (simp add: add.assoc)
qed

lemma loop_sftp_success:
  "sftp_read (env i) outfile = Inr content \<Longrightarrow>
     get_job_output_loop env outfile max_retries (i # rest) slept = (Inr content, slept)"
  by simp

lemma loop_cat_success:
  "sftp_read (env i) outfile = Inl (IOError m) \<Longrightarrow>
   exec_command (env i) (''cat '' @ outfile) = Inr (0, out, err) \<Longrightarrow>
     get_job_output_loop env outfile max_retries (i # rest) slept = (Inr (py_strip out), slept)"
  by (simp add: run_command_def)

lemma loop_sftp_raises:
  "sftp_read (env i) outfile = Inl e \<Longrightarrow> \<forall>m. e \<noteq> IOError m \<Longrightarrow>
     get_job_output_loop env outfile max_retries (i # rest) slept = (Inl e, slept)"
  by (cases e) simp_all

lemma loop_cat_raises:
  "sftp_read (env i) outfile = Inl (IOError m) \<Longrightarrow>
   exec_command (env i) (''cat '' @ outfile) = Inl e \<Longrightarrow>
     get_job_output_loop env outfile max_retries (i # rest) slept = (Inl e, slept)"
  by (simp add: run_command_def)

lemma loop_sleep_bound:
  "snd (get_job_output_loop env outfile max_retries attempts slept)
     \<le> slept + 3 * length (filter (\<lambda>i. i < max_retries - 1) attempts)"
proof (induction attempts arbitrary: slept)
  case Nil
  show ?case by simp
next
  case (Cons i attempts)
  have a: "snd (get_job_output_loop env outfile max_retries attempts
                 (if i < max_retries - 1 then slept + 3 else slept))
             \<le> (if i < max_retries - 1 then slept + 3 else slept)
                 + 3 * length (filter (\<lambda>i. i < max_retries - 1) attempts)"
    by (rule Cons.IH)
  show ?case
  proof (cases "attempt_fails (env i) outfile")
    case True
    from a show ?thesis by (simp only: loop_failed_attempt [where env=env and i=i, OF True]) (simp split: if_splits)
  next
    case False
    then have "snd (get_job_output_loop env outfile max_retries (i # attempts) slept) = slept"
      by (auto simp: attempt_fails_iff split: sum.splits exn.splits prod.splits)
    then show ?thesis by simp
  qed
qed

lemma filter_retries_upt: "k \<le> 10 \<Longrightarrow> length (filter (\<lambda>i. i < 10 - 1) [0..<k]) = min k 9"
proof (induction k)
  case 0
  show ?case by simp
next
  case (Suc k)
  then show ?case by (auto simp: min_def)
qed

lemma upt_split: "k < n \<Longrightarrow> [0..<n] = [0..<k] @ k # [Suc k..<n]"
  by (metis upt_add_eq_append upt_conv_Cons le0 less_imp_le_nat le_add_diff_inverse)

lemma Paramiko_get_job_output_unfold:
  "Paramiko_get_job_output c env job_id =
     get_job_output_loop env
       (py_replace (case job_files c job_id of None \<Rightarrow> ''slurm-%j.out'' | Some p \<Rightarrow> p) ''%j'' job_id)
       10 [0..<10] 0"
  by (simp add: Paramiko_get_job_output_def Let_def)

lemma submit_rejected:
  assumes "sftp_write env (''job_'' @ py_str (py_int now) @ ''.sh'') script_content = None"
    and "exec_command env (''sbatch '' @ ''job_'' @ py_str (py_int now) @ ''.sh'') = Inr (code, out, err)"
    and "code \<noteq> 0"
  shows "Paramiko_submit_job c env script_content now =
           (Inl (Exception (''sbatch failed: '' @ py_strip err)), c)"
  using assms by (simp add: Paramiko_submit_job_def Let_def run_command_def)

lemma submit_accepted:
  assumes "sftp_write env (''job_'' @ py_str (py_int now) @ ''.sh'') script_content = None"
    and "exec_command env (''sbatch '' @ ''job_'' @ py_str (py_int now) @ ''.sh'') = Inr (0, out, err)"
    and "py_split (py_strip out) \<noteq> []"
    and "scan_output_pattern (py_splitlines script_content) ''slurm-%j.out'' = Inr pattern"
  shows "Paramiko_submit_job c env script_content now =
           (Inr (last (py_split (py_strip out))),
            c\<lparr>job_files := (job_files c)(last (py_split (py_strip out)) \<mapsto> pattern)\<rparr>)"
  using assms by (simp add: Paramiko_submit_job_def Let_def run_command_def py_getitem_last)

lemma submit_unparsed:
  assumes "sftp_write env (''job_'' @ py_str (py_int now) @ ''.sh'') script_content = None"
    and "exec_command env (''sbatch '' @ ''job_'' @ py_str (py_int now) @ ''.sh'') = Inr (0, out, err)"
    and "py_split (py_strip out) = []"
  shows "Paramiko_submit_job c env script_content now =
           (Inl (Exception (''Could not parse job ID from sbatch output: '' @ py_strip out)), c)"
  using assms by (simp add: Paramiko_submit_job_def Let_def run_command_def py_getitem_last_Nil)

lemma submit_failure_unchanged:
  "fst (Paramiko_submit_job c env script_content now) = Inl e \<Longrightarrow>
     snd (Paramiko_submit_job c env script_content now) = c"
  by (auto simp: Paramiko_submit_job_def Let_def
      split: option.splits sum.splits prod.splits if_splits exn.splits)

lemma submit_success_cases:
  assumes "Paramiko_submit_job c env script_content now = (Inr job_id, c')"
  shows "\<exists>out err pattern.
           sftp_write env (''job_'' @ py_str (py_int now) @ ''.sh'') script_content = None \<and>
           exec_command env (''sbatch '' @ ''job_'' @ py_str (py_int now) @ ''.sh'') = Inr (0, out, err) \<and>
           py_split (py_strip out) \<noteq> [] \<and>
           job_id = last (py_split (py_strip out)) \<and>
           scan_output_pattern (py_splitlines script_content) ''slurm-%j.out'' = Inr pattern \<and>
           c' = c\<lparr>job_files := (job_files c)(job_id \<mapsto> pattern)\<rparr>"
proof -
  let ?f = "''job_'' @ py_str (py_int now) @ ''.sh''"
  from assms have w: "sftp_write env ?f script_content = None"
    by (auto simp: Paramiko_submit_job_def Let_def split: option.splits)
  from assms w obtain code out err where e: "exec_command env (''sbatch '' @ ?f) = Inr (code, out, err)"
    by (cases "exec_command env (''sbatch '' @ ?f)")
       (auto simp: Paramiko_submit_job_def Let_def run_command_def)
  have code: "code = 0"
  proof (rule ccontr)
    assume "code \<noteq> 0"
    from submit_rejected [OF w _ this, of out err c] e assms show False by simp
  qed
  have ne: "py_split (py_strip out) \<noteq> []"
  proof
    assume "py_split (py_strip out) = []"
    from submit_unparsed [OF w _ this, of err c] e code assms show False by simp
  qed
  obtain pattern where p: "scan_output_pattern (py_splitlines script_content) ''slurm-%j.out'' = Inr pattern"
    using scan_output_pattern_total by blast
  from submit_accepted [OF w _ ne p, of err c] e code assms
  have "job_id = last (py_split (py_strip out))"
    and "c' = c\<lparr>job_files := (job_files c)(job_id \<mapsto> pattern)\<rparr>" by simp_all
  with w e code ne p show ?thesis by blast
qed



lemma Paramiko_submit_keeps_key:
  assumes "job_files c job_id \<noteq> None"
  shows "job_files (snd (Paramiko_submit_job c env script_content now)) job_id \<noteq> None"
proof (cases "fst (Paramiko_submit_job c env script_content now)")
  case (Inl e)
  from submit_failure_unchanged [OF this] assms show ?thesis by simp
next
  case (Inr job_id2)
  then have "Paramiko_submit_job c env script_content now
               = (Inr job_id2, snd (Paramiko_submit_job c env script_content now))"
    by (metis prod.collapse)
  from submit_success_cases [OF this] obtain pattern where
    "snd (Paramiko_submit_job c env script_content now)
       = c\<lparr>job_files := (job_files c)(job_id2 \<mapsto> pattern)\<rparr>" by blast
  with assms show ?thesis by simp
qed

lemma Paramiko_submit_other:
  assumes "fst (Paramiko_submit_job c env script_content now) \<noteq> Inr job_id"
  shows "job_files (snd (Paramiko_submit_job c env script_content now)) job_id = job_files c job_id"
proof (cases "fst (Paramiko_submit_job c env script_content now)")
  case (Inl e)
  from submit_failure_unchanged [OF this] show ?thesis by simp
next
  case (Inr job_id2)
  then have "Paramiko_submit_job c env script_content now
               = (Inr job_id2, snd (Paramiko_submit_job c env script_content now))"
    by (metis prod.collapse)
  from submit_success_cases [OF this] obtain pattern where
    "snd (Paramiko_submit_job c env script_content now)
       = c\<lparr>job_files := (job_files c)(job_id2 \<mapsto> pattern)\<rparr>" by blast
  moreover from assms Inr have "job_id2 \<noteq> job_id" by simp
  ultimately show ?thesis by simp
qed

lemma Paramiko_exec_kept:
  "Inr job_id \<notin> set (Paramiko_returns c submissions) \<Longrightarrow>
     job_files (Paramiko_exec c submissions) job_id = job_files c job_id"
proof (induction submissions arbitrary: c)
  case Nil
  show ?case by simp
next
  case (Cons x submissions)
  obtain env script_content now where x: "x = (env, script_content, now)" by (cases x) auto
  from Cons.prems x have n: "fst (Paramiko_submit_job c env script_content now) \<noteq> Inr job_id"
    and r: "Inr job_id \<notin> set (Paramiko_returns (snd (Paramiko_submit_job c env script_content now)) submissions)"
    by auto
  from Cons.IH [OF r] Paramiko_submit_other [OF n] x show ?case by simp
qed

lemma Paramiko_exec_keeps_key:
  "job_files c job_id \<noteq> None \<Longrightarrow> job_files (Paramiko_exec c submissions) job_id \<noteq> None"
proof (induction submissions arbitrary: c)
  case Nil
  then show ?case by simp
next
  case (Cons x submissions)
  obtain env script_content now where x: "x = (env, script_content, now)" by (cases x) auto
  from Cons.prems have "job_files (snd (Paramiko_submit_job c env script_content now)) job_id \<noteq> None"
    by (rule Paramiko_submit_keeps_key)
  then have "job_files (Paramiko_exec (snd (Paramiko_submit_job c env script_content now)) submissions) job_id \<noteq> None"
    by (rule Cons.IH)
  with x show ?case by simp
qed

section \<open>The clients on concrete inputs\<close>

lemma isspace_simps:
  "isspace CHR 0x0A" "isspace CHR '' ''" "\<not> isspace CHR ''F''" "\<not> isspace CHR ''A''"
  "\<not> isspace CHR ''I''" "\<not> isspace CHR ''L''" "\<not> isspace CHR ''E''" "\<not> isspace CHR ''D''"
  "\<not> isspace CHR ''R''" "\<not> isspace CHR ''U''" "\<not> isspace CHR ''N''" "\<not> isspace CHR ''G''"
  by (simp_all add: isspace_def whitespace_def)

lemma ws_simps:
  "isspace c = (c \<in> set whitespace)"
  "whitespace =
     [CHR 0x09, CHR 0x0A, CHR 0x0B, CHR 0x0C, CHR 0x0D, CHR 0x1C, CHR 0x1D, CHR 0x1E,
      CHR 0x1F, CHR 0x20, CHR 0x85, CHR 0xA0]"
  by (simp_all add: isspace_def whitespace_def)

lemma py_str_1234: "py_str 1234 = ''1234''"
  by (simp add: py_str_def str_nat.simps digit_def)

lemma replace_custom: "py_replace ''custom-%j.log'' ''%j'' ''77'' = ''custom-77.log''"
  by (simp add: py_replace.simps)


lemma quiet_remote_fails: "attempt_fails quiet_remote outfile"
  by (simp add: attempt_fails_def quiet_remote_def)

lemma filename_1700000000: "''job_'' @ py_str (py_int 1700000000.5) @ ''.sh'' = ''job_1700000000.sh''"
  by (simp add: py_int_def py_str_def str_nat.simps digit_def)

lemma sbatch_reply:
  "exec_command running_remote (''sbatch '' @ ''job_'' @ py_str (py_int 1700000000.5) @ ''.sh'')
     = Inr (0, ''Submitted batch job 77'' @ [CHR 0x0A], [])"
  using filename_1700000000 by (simp add: running_remote_def)

lemma sbatch_reply_split:
  "py_split (py_strip (''Submitted batch job 77'' @ [CHR 0x0A])) = [''Submitted'', ''batch'', ''job'', ''77'']"
  by (simp add: py_strip_def py_split.simps ws_simps Let_def)

lemma splitlines_custom:
  "py_splitlines custom_script =
     [''#!/bin/bash'', ''#SBATCH --job-name=demo'', ''#SBATCH --output=custom-%j.log'', ''echo hello'']"
  by (simp add: py_splitlines_def custom_script_def linebreaks_def)


lemma scan_custom: "scan_output_pattern (py_splitlines custom_script) ''slurm-%j.out'' = Inr ''custom-%j.log''"
  by (simp add: splitlines_custom py_strip_def ws_simps py_getitem_def)


lemma submit_custom:
  "Paramiko_submit_job Paramiko_init running_remote custom_script 1700000000.5
     = (Inr ''77'', \<lparr>job_files = [''77'' \<mapsto> ''custom-%j.log'']\<rparr>)"
proof -
  have w: "sftp_write running_remote (''job_'' @ py_str (py_int 1700000000.5) @ ''.sh'') custom_script = None"
    by (simp add: running_remote_def)
  have ne: "py_split (py_strip (''Submitted batch job 77'' @ [CHR 0x0A])) \<noteq> []"
    by (simp only: sbatch_reply_split) simp
  from submit_accepted [OF w sbatch_reply ne scan_custom, of Paramiko_init]
  show ?thesis by (simp only: sbatch_reply_split) (simp add: Paramiko_init_def)
qed


section \<open>The claims\<close>

text \<open>
  Claim C1 does not hold as stated for the simulated client, which draws each
  identifier at random and does not look the new
  identifier up in the registry. When two draws agree, the two submissions return the
  same identifier and the second record replaces the first.
\<close>

theorem submit_job_ids_collide:
  "mock_returns Mock_init [Submit ''echo first'' 100 1234, Submit ''echo second'' 101 1234]
     = [''1234'', ''1234''] \<and>
   map_option script
     (jobs (mock_exec Mock_init [Submit ''echo first'' 100 1234, Submit ''echo second'' 101 1234]) ''1234'')
     = Some ''echo second''"
  by (simp add: Mock_submit_job_def Let_def py_str_1234)

text \<open>
  Claim C1, as the code has it. Two \<open>submit_job\<close> calls of a simulated client
  return distinct identifiers exactly when the two numbers drawn differ; the remote
  client returns the last token printed by \<open>sbatch\<close>. On both variants an issued
  identifier stays a key of the registry through all later calls, and it maps to the
  record of its own submission for as long as no later \<open>submit_job\<close> returns the same
  identifier: in the simulated client the record under it keeps the submitted script and
  the submission time, in the remote client it keeps the output pattern derived from the
  script.
\<close>

theorem submit_job_identifiers:
  "(fst (Mock_submit_job c1 script1 now1 r1) = fst (Mock_submit_job c2 script2 now2 r2) \<longleftrightarrow> r1 = r2) \<and>
   jobs (snd (Mock_submit_job c script_content now r)) (fst (Mock_submit_job c script_content now r))
     = Some \<lparr>status = ''PENDING'', script = script_content, submitted_at = now, output = ''''\<rparr> \<and>
   jobs (mock_exec (snd (Mock_submit_job c script_content now r)) later)
        (fst (Mock_submit_job c script_content now r)) \<noteq> None \<and>
   ((\<forall>a\<in>set later. \<not> issues (fst (Mock_submit_job c script_content now r)) a) \<longrightarrow>
      (\<exists>job. jobs (mock_exec (snd (Mock_submit_job c script_content now r)) later)
                (fst (Mock_submit_job c script_content now r)) = Some job \<and>
              script job = script_content \<and> submitted_at job = now)) \<and>
   (\<forall>job_id pc'. Paramiko_submit_job pc env script_content now = (Inr job_id, pc') \<longrightarrow>
      (\<exists>out err. exec_command env (''sbatch '' @ ''job_'' @ py_str (py_int now) @ ''.sh'') = Inr (0, out, err) \<and>
         job_id = last (py_split (py_strip out))) \<and>
      job_files (Paramiko_exec pc' submissions) job_id \<noteq> None \<and>
      (Inr job_id \<notin> set (Paramiko_returns pc' submissions) \<longrightarrow>
         (\<exists>pattern. scan_output_pattern (py_splitlines script_content) ''slurm-%j.out'' = Inr pattern \<and>
            job_files (Paramiko_exec pc' submissions) job_id = Some pattern)))"
proof (intro conjI allI impI)
  show "fst (Mock_submit_job c1 script1 now1 r1) = fst (Mock_submit_job c2 script2 now2 r2) \<longleftrightarrow> r1 = r2"
    using py_str_inj by (auto simp: Mock_submit_job_def Let_def)
next
  have f: "fst (Mock_submit_job c script_content now r) = py_str r"
    by (simp add: Mock_submit_job_def Let_def)
  show "jobs (snd (Mock_submit_job c script_content now r)) (fst (Mock_submit_job c script_content now r))
     = Some \<lparr>status = ''PENDING'', script = script_content, submitted_at = now, output = ''''\<rparr>"
    by (simp only: f Mock_submit_same)
  then have "jobs (snd (Mock_submit_job c script_content now r))
               (fst (Mock_submit_job c script_content now r)) \<noteq> None" by simp
  then show "jobs (mock_exec (snd (Mock_submit_job c script_content now r)) later)
        (fst (Mock_submit_job c script_content now r)) \<noteq> None"
    by (rule mock_exec_keeps_key)
next
  let ?id = "fst (Mock_submit_job c script_content now r)"
  assume n: "\<forall>a\<in>set later. \<not> issues ?id a"
  have f: "?id = py_str r" by (simp add: Mock_submit_job_def Let_def)
  have "jobs (snd (Mock_submit_job c script_content now r)) ?id
     = Some \<lparr>status = ''PENDING'', script = script_content, submitted_at = now, output = ''''\<rparr>"
    by (simp only: f Mock_submit_same)
  from job_kept_exec [OF this n]
  show "\<exists>job. jobs (mock_exec (snd (Mock_submit_job c script_content now r)) later) ?id = Some job \<and>
              script job = script_content \<and> submitted_at job = now"
    by simp
next
  fix job_id pc'
  assume s: "Paramiko_submit_job pc env script_content now = (Inr job_id, pc')"
  from submit_success_cases [OF s] obtain out err pattern where
    e: "exec_command env (''sbatch '' @ ''job_'' @ py_str (py_int now) @ ''.sh'') = Inr (0, out, err)"
    and j: "job_id = last (py_split (py_strip out))"
    and p: "scan_output_pattern (py_splitlines script_content) ''slurm-%j.out'' = Inr pattern"
    and c: "pc' = pc\<lparr>job_files := (job_files pc)(job_id \<mapsto> pattern)\<rparr>" by blast
  from e j show "\<exists>out err. exec_command env (''sbatch '' @ ''job_'' @ py_str (py_int now) @ ''.sh'') = Inr (0, out, err) \<and>
         job_id = last (py_split (py_strip out))" by blast
  from c have k: "job_files pc' job_id = Some pattern" by simp
  then have "job_files pc' job_id \<noteq> None" by simp
  then show "job_files (Paramiko_exec pc' submissions) job_id \<noteq> None"
    by (rule Paramiko_exec_keeps_key)
  {
    assume "Inr job_id \<notin> set (Paramiko_returns pc' submissions)"
    from Paramiko_exec_kept [OF this] k p
    show "\<exists>pattern. scan_output_pattern (py_splitlines script_content) ''slurm-%j.out'' = Inr pattern \<and>
            job_files (Paramiko_exec pc' submissions) job_id = Some pattern"
      by simp
  }
qed

theorem submit_job_identifiers_witness:
  "fst (Mock_submit_job Mock_init ''echo first'' 100 1234)
     \<noteq> fst (Mock_submit_job Mock_init ''echo second'' 101 1235) \<and>
   fst (Mock_submit_job Mock_init ''echo first'' 100 1234)
     = fst (Mock_submit_job Mock_init ''echo second'' 101 1234) \<and>
   map_option script
     (jobs (mock_exec (snd (Mock_submit_job Mock_init ''echo first'' 100 1234))
        [Status ''1234'' 106, Submit ''echo second'' 107 1235]) ''1234'') = Some ''echo first'' \<and>
   job_files
     (Paramiko_exec \<lparr>job_files = [''77'' \<mapsto> ''custom-%j.log'']\<rparr>
        [(rejecting_remote, plain_script, 1700000005)]) ''77'' = Some ''custom-%j.log''"
proof -
  note t = submit_job_identifiers
    [of Mock_init "''echo first''" 100 1234 Mock_init "''echo second''" 101 1235
        Mock_init custom_script "1700000000.5" 1234 "[]" Paramiko_init running_remote
        "[(rejecting_remote, plain_script, 1700000005)]"]
  note u = submit_job_identifiers
    [of Mock_init "''echo first''" 100 1234 Mock_init "''echo second''" 101 1234
        Mock_init "''echo first''" 100 1234 "[Status ''1234'' 106, Submit ''echo second'' 107 1235]"
        Paramiko_init running_remote "[]"]
  from t [THEN conjunct1]
  have 1: "fst (Mock_submit_job Mock_init ''echo first'' 100 1234)
     \<noteq> fst (Mock_submit_job Mock_init ''echo second'' 101 1235)" by simp
  from u [THEN conjunct1]
  have 2: "fst (Mock_submit_job Mock_init ''echo first'' 100 1234)
     = fst (Mock_submit_job Mock_init ''echo second'' 101 1234)" by simp
  have f: "fst (Mock_submit_job Mock_init ''echo first'' 100 1234) = ''1234''"
    by (simp add: Mock_submit_job_def Let_def py_str_1234)
  have "py_str 1235 = ''1235''" by (simp add: py_str_def str_nat.simps digit_def)
  then have n: "\<forall>a\<in>set [Status ''1234'' 106, Submit ''echo second'' 107 1235].
          \<not> issues (fst (Mock_submit_job Mock_init ''echo first'' 100 1234)) a"
    by (simp add: f)
  from u [THEN conjunct2, THEN conjunct2, THEN conjunct2, THEN conjunct1, THEN mp, OF n]
  have 3: "map_option script
     (jobs (mock_exec (snd (Mock_submit_job Mock_init ''echo first'' 100 1234))
        [Status ''1234'' 106, Submit ''echo second'' 107 1235]) ''1234'') = Some ''echo first''"
    by (auto simp only: f option.map)
  have r: "Inr ''77'' \<notin> set (Paramiko_returns \<lparr>job_files = [''77'' \<mapsto> ''custom-%j.log'']\<rparr>
              [(rejecting_remote, plain_script, 1700000005)])"
  proof -
    have w: "sftp_write rejecting_remote (''job_'' @ py_str (py_int 1700000005) @ ''.sh'') plain_script = None"
      by (simp add: rejecting_remote_def)
    have e: "exec_command rejecting_remote (''sbatch '' @ ''job_'' @ py_str (py_int 1700000005) @ ''.sh'')
               = Inr (1, [], ''sbatch: error: invalid partition specified'' @ [CHR 0x0A])"
      by (simp add: rejecting_remote_def)
    have "(1::int) \<noteq> 0" by simp
    from submit_rejected [OF w e this] show ?thesis by simp
  qed
  from t [THEN conjunct2, THEN conjunct2, THEN conjunct2, THEN conjunct2, THEN spec, THEN spec, THEN mp,
          OF submit_custom, THEN conjunct2, THEN conjunct2, THEN mp, OF r] scan_custom
  have 4: "job_files
     (Paramiko_exec \<lparr>job_files = [''77'' \<mapsto> ''custom-%j.log'']\<rparr>
        [(rejecting_remote, plain_script, 1700000005)]) ''77'' = Some ''custom-%j.log''"
    by simp
  from 1 2 3 4 show ?thesis by (intro conjI)
qed






text \<open>
  Claim C4. In a session of the simulated client, once \<open>get_job_status\<close> has
  returned COMPLETED for a job, \<open>get_job_output\<close> for it returns a non-empty text:
  one that contains 42 when the script contains the word python, and the sentence
  "Job completed successfully." otherwise. This stays so through all later calls, as
  long as no later submission is given the same identifier (that would be another job).
\<close>

theorem Mock_output_once_completed:
  assumes "c = mock_exec Mock_init calls"
    and "jobs c job_id = Some job"
    and "fst (Mock_get_job_status c job_id now) = ''COMPLETED''"
    and "\<forall>a\<in>set later. \<not> issues job_id a"
  shows "let out = Mock_get_job_output (mock_exec (snd (Mock_get_job_status c job_id now)) later) job_id
         in out \<noteq> [] \<and>
            (contains (script job) ''python'' \<longrightarrow> contains out ''42'') \<and>
            (\<not> contains (script job) ''python'' \<longrightarrow> out = ''Job completed successfully.'')"
proof -
  have inv: "output_inv c" using assms(1) output_inv_init by (simp add: output_inv_exec)
  with assms(2) have o: "output job = [] \<or> output job = mock_output_for (script job)"
    by (simp add: output_inv_def)
  from assms(3) Mock_status_cases [OF assms(2), of now]
  have e: "\<not> float_sub now (submitted_at job) < 5" by (auto split: if_splits)
  from Mock_status_same [OF assms(2), of now] e o
  obtain job' where j: "jobs (snd (Mock_get_job_status c job_id now)) job_id = Some job'"
    "output job' = mock_output_for (script job)" by auto
  from output_kept_exec [OF j mock_output_for_nonempty assms(4)]
  have "Mock_get_job_output (mock_exec (snd (Mock_get_job_status c job_id now)) later) job_id
          = mock_output_for (script job)"
    by (auto simp: Mock_get_job_output_def)
  then show ?thesis by (simp add: mock_output_for_def)
qed

theorem Mock_output_once_completed_witness:
  "contains
     (Mock_get_job_output
        (mock_exec Mock_init
           [Submit ''python3 run.py'' 100 1234, Status ''1234'' 106, Status ''1234'' 107])
        ''1234'') ''42'' \<and>
   Mock_get_job_output
     (mock_exec Mock_init
        [Submit ''echo hello'' 100 1234, Status ''1234'' 106, Status ''1234'' 107])
     ''1234'' = ''Job completed successfully.''"
proof -
  let ?c = "mock_exec Mock_init [Submit ''python3 run.py'' 100 1234]"
  let ?d = "mock_exec Mock_init [Submit ''echo hello'' 100 1234]"
  let ?j = "\<lparr>status = ''PENDING'', script = ''python3 run.py'', submitted_at = 100, output = ''''\<rparr>"
  let ?k = "\<lparr>status = ''PENDING'', script = ''echo hello'', submitted_at = 100, output = ''''\<rparr>"
  have id: "py_str 1234 = ''1234''" by (simp add: py_str_def str_nat.simps digit_def)
  have cj: "jobs ?c ''1234'' = Some ?j"
    by (simp add: Mock_submit_job_def Mock_init_def Let_def id)
  have dk: "jobs ?d ''1234'' = Some ?k"
    by (simp add: Mock_submit_job_def Mock_init_def Let_def id)
  have c6: "fst (Mock_get_job_status ?c ''1234'' 106) = ''COMPLETED''"
    using cj by (simp add: Mock_get_job_status_def Let_def float_sub_examples del: mock_exec.simps)
  have d6: "fst (Mock_get_job_status ?d ''1234'' 106) = ''COMPLETED''"
    using dk by (simp add: Mock_get_job_status_def Let_def float_sub_examples del: mock_exec.simps)
  have l: "\<forall>a\<in>set [Status ''1234'' 107]. \<not> issues ''1234'' a" by simp
  from Mock_output_once_completed [OF refl cj c6 l] Mock_output_once_completed [OF refl dk d6 l]
  show ?thesis by (simp add: Let_def)
qed

text \<open>
  Claim C5. The remote client's \<open>get_job_status\<close> derives the state in this order:
  when the \<open>squeue\<close> query gives a non-empty output, that output is the state;
  otherwise, when the \<open>sacct\<close> query gives a non-empty output, its first
  whitespace-delimited token is the state; otherwise the state is COMPLETED. The output of
  a query is what \<open>_run_command\<close> hands back, that is the stripped standard output.
\<close>

theorem Paramiko_get_job_status_derivation:
  assumes "run_command env (''squeue -j '' @ job_id @ '' -h -o %T'') = Inr (code, out, err)"
  shows "(out \<noteq> [] \<longrightarrow> Paramiko_get_job_status c env job_id = Inr out) \<and>
         (out = [] \<longrightarrow>
            (\<forall>code2 out2 err2.
               run_command env (''sacct -j '' @ job_id @ '' -n -o State'') = Inr (code2, out2, err2) \<longrightarrow>
               (out2 \<noteq> [] \<longrightarrow>
                  py_split out2 \<noteq> [] \<and>
                  Paramiko_get_job_status c env job_id = Inr (hd (py_split out2))) \<and>
               (out2 = [] \<longrightarrow> Paramiko_get_job_status c env job_id = Inr ''COMPLETED'')))"
proof (intro conjI impI allI)
  assume "out \<noteq> []"
  with assms show "Paramiko_get_job_status c env job_id = Inr out"
    by (rule Paramiko_status_queue)
next
  fix code2 out2 err2
  assume o: "out = []"
    and a: "run_command env (''sacct -j '' @ job_id @ '' -n -o State'') = Inr (code2, out2, err2)"
  from assms o
  have q: "run_command env (''squeue -j '' @ job_id @ '' -h -o %T'') = Inr (code, [], err)"
    by simp
  {
    assume ne: "out2 \<noteq> []"
    from q a ne show "py_split out2 \<noteq> []" by (rule Paramiko_status_accounting(1))
    from q a ne show "Paramiko_get_job_status c env job_id = Inr (hd (py_split out2))"
      by (rule Paramiko_status_accounting(2))
  }
  {
    assume "out2 = []"
    with a have "run_command env (''sacct -j '' @ job_id @ '' -n -o State'') = Inr (code2, [], err2)"
      by simp
    with q show "Paramiko_get_job_status c env job_id = Inr ''COMPLETED''"
      by (rule Paramiko_status_fallback)
  }
qed

theorem Paramiko_get_job_status_derivation_witness:
  "Paramiko_get_job_status Paramiko_init running_remote ''77'' = Inr ''RUNNING'' \<and>
   Paramiko_get_job_status Paramiko_init failed_remote ''77'' = Inr ''FAILED'' \<and>
   Paramiko_get_job_status Paramiko_init quiet_remote ''77'' = Inr ''COMPLETED''"
proof -
  have q1: "run_command running_remote (''squeue -j '' @ ''77'' @ '' -h -o %T'') = Inr (0, ''RUNNING'', [])"
    by (simp add: run_command_def running_remote_def py_strip_def isspace_simps)
  have q2: "run_command failed_remote (''squeue -j '' @ ''77'' @ '' -h -o %T'') = Inr (0, [], [])"
    by (simp add: run_command_def failed_remote_def py_strip_def)
  have a2: "run_command failed_remote (''sacct -j '' @ ''77'' @ '' -n -o State'')
              = Inr (0, ''FAILED '' @ [CHR 0x0A] @ ''    FAILED'', [])"
    by (simp add: run_command_def failed_remote_def py_strip_def isspace_simps)
  have s2: "hd (py_split (''FAILED '' @ [CHR 0x0A] @ ''    FAILED'')) = ''FAILED''"
    by (subst py_split.simps) (simp add: Let_def isspace_simps)
  have q3: "run_command quiet_remote (''squeue -j '' @ ''77'' @ '' -h -o %T'') = Inr (0, [], [])"
    by (simp add: run_command_def quiet_remote_def py_strip_def)
  have a3: "run_command quiet_remote (''sacct -j '' @ ''77'' @ '' -n -o State'') = Inr (0, [], [])"
    by (simp add: run_command_def quiet_remote_def py_strip_def)
  from Paramiko_get_job_status_derivation [OF q1, of Paramiko_init]
  have 1: "Paramiko_get_job_status Paramiko_init running_remote ''77'' = Inr ''RUNNING''" by simp
  from Paramiko_get_job_status_derivation [OF q2, of Paramiko_init] a2 s2
  have 2: "Paramiko_get_job_status Paramiko_init failed_remote ''77'' = Inr ''FAILED''"
    by (metis list.distinct(1) self_append_conv2 append_Cons)
  from Paramiko_get_job_status_derivation [OF q3, of Paramiko_init] a3
  have 3: "Paramiko_get_job_status Paramiko_init quiet_remote ''77'' = Inr ''COMPLETED''" by blast
  from 1 2 3 show ?thesis by blast
qed

text \<open>
  Claim C6 does not hold as stated: not every failure of a read is followed by the
  fallback or by a retry. \<open>get_job_output\<close> catches \<open>IOError\<close> from the SFTP
  read only, and runs the \<open>cat\<close> command unguarded. On a host whose SSH session has
  dropped the SFTP read raises another exception, and on a host where the file is missing
  and running a command raises, the fallback itself raises; in both cases the exception
  reaches the caller at the first attempt, with no retry and no "not found" text.
\<close>

theorem get_job_output_raises:
  "Paramiko_get_job_output \<lparr>job_files = [''77'' \<mapsto> ''custom-%j.log'']\<rparr> (\<lambda>i. dropped_remote) ''77''
     = (Inl (OtherError ''SSH session not active''), 0) \<and>
   Paramiko_get_job_output \<lparr>job_files = [''77'' \<mapsto> ''custom-%j.log'']\<rparr> (\<lambda>i. cat_raises_remote) ''77''
     = (Inl (OtherError ''SSH session not active''), 0)"
proof -
  have u: "[0..<10] = 0 # [Suc 0..<10]" by (rule upt_conv_Cons) simp
  have 1: "get_job_output_loop (\<lambda>i. dropped_remote) ''custom-77.log'' 10 (0 # [Suc 0..<10]) 0
             = (Inl (OtherError ''SSH session not active''), 0)"
    by (rule loop_sftp_raises) (simp_all add: dropped_remote_def)
  have 2: "get_job_output_loop (\<lambda>i. cat_raises_remote) ''custom-77.log'' 10 (0 # [Suc 0..<10]) 0
             = (Inl (OtherError ''SSH session not active''), 0)"
    by (rule loop_cat_raises [where m = "''[Errno 2] No such file''"])
       (simp_all add: cat_raises_remote_def)
  from 1 2 show ?thesis
    by (simp only: Paramiko_get_job_output_unfold u) (simp add: replace_custom)
qed

text \<open>
  Claim C6, as the code has it. The remote client's \<open>get_job_output\<close> makes at most
  10 attempts. Each attempt first reads the output file through SFTP and, when that
  raises \<open>IOError\<close>, reads it with the \<open>cat\<close> command; the first read that
  succeeds is returned. After an attempt in which the SFTP read raised \<open>IOError\<close> and
  \<open>cat\<close> ended with a non-zero exit status, the client sleeps 3 seconds (not after
  the last attempt) and tries again. When all 10 attempts fail in this way it has slept
  27 seconds and returns, raising nothing, a text that contains the file name and the
  words "not found". Any other exception of the SFTP read, and any exception raised while
  running \<open>cat\<close>, is passed on to the caller at once, without fallback or retry. In
  every case the client sleeps no more than 27 seconds.
\<close>

theorem Paramiko_get_job_output_retries:
  assumes "outfile =
             py_replace (case job_files c job_id of None \<Rightarrow> ''slurm-%j.out'' | Some p \<Rightarrow> p) ''%j'' job_id"
  shows "((\<forall>i<10. attempt_fails (env i) outfile) \<longrightarrow>
            Paramiko_get_job_output c env job_id =
              (Inr (''Output file '' @ outfile @ '' not found after retries.''), 27) \<and>
            contains (''Output file '' @ outfile @ '' not found after retries.'') outfile \<and>
            contains (''Output file '' @ outfile @ '' not found after retries.'') ''not found'') \<and>
         (\<forall>k content. k < 10 \<and> (\<forall>i<k. attempt_fails (env i) outfile) \<and>
            sftp_read (env k) outfile = Inr content \<longrightarrow>
            Paramiko_get_job_output c env job_id = (Inr content, 3 * k)) \<and>
         (\<forall>k m out err. k < 10 \<and> (\<forall>i<k. attempt_fails (env i) outfile) \<and>
            sftp_read (env k) outfile = Inl (IOError m) \<and>
            exec_command (env k) (''cat '' @ outfile) = Inr (0, out, err) \<longrightarrow>
            Paramiko_get_job_output c env job_id = (Inr (py_strip out), 3 * k)) \<and>
         (\<forall>k e. k < 10 \<and> (\<forall>i<k. attempt_fails (env i) outfile) \<and>
            sftp_read (env k) outfile = Inl e \<and> (\<forall>m. e \<noteq> IOError m) \<longrightarrow>
            Paramiko_get_job_output c env job_id = (Inl e, 3 * k)) \<and>
         (\<forall>k m e. k < 10 \<and> (\<forall>i<k. attempt_fails (env i) outfile) \<and>
            sftp_read (env k) outfile = Inl (IOError m) \<and>
            exec_command (env k) (''cat '' @ outfile) = Inl e \<longrightarrow>
            Paramiko_get_job_output c env job_id = (Inl e, 3 * k)) \<and>
         snd (Paramiko_get_job_output c env job_id) \<le> 27"
proof (intro conjI impI allI)
  assume f: "\<forall>i<10. attempt_fails (env i) outfile"
  then have "\<forall>i\<in>set [0..<10]. attempt_fails (env i) outfile" by simp
  from loop_failed_prefix [where env=env and max_retries=10 and rest="[]" and slept=0, OF this] filter_retries_upt [of 10]
  show "Paramiko_get_job_output c env job_id =
          (Inr (''Output file '' @ outfile @ '' not found after retries.''), 27)"
    by (simp add: Paramiko_get_job_output_unfold assms [symmetric])
next
  show "contains (''Output file '' @ outfile @ '' not found after retries.'') outfile"
    by (rule contains_append)
next
  have "contains ((''Output file '' @ outfile @ '' '') @ ''not found'' @ '' after retries.'') ''not found''"
    by (rule contains_append)
  then show "contains (''Output file '' @ outfile @ '' not found after retries.'') ''not found''"
    by simp
next
  fix k content
  assume h: "k < 10 \<and> (\<forall>i<k. attempt_fails (env i) outfile) \<and> sftp_read (env k) outfile = Inr content"
  then have p: "\<forall>i\<in>set [0..<k]. attempt_fails (env i) outfile" by simp
  from h have k: "k < 10" by simp
  from h have s: "sftp_read (env k) outfile = Inr content" by simp
  have "get_job_output_loop env outfile 10 ([0..<k] @ k # [Suc k..<10]) 0 = (Inr content, 3 * k)"
    using filter_retries_upt [of k] k
    by (simp only: loop_failed_prefix [where env=env, OF p] loop_sftp_success [where env=env and i=k, OF s]) simp
  with upt_split [OF k] show "Paramiko_get_job_output c env job_id = (Inr content, 3 * k)"
    by (simp add: Paramiko_get_job_output_unfold assms [symmetric])
next
  fix k m out err
  assume h: "k < 10 \<and> (\<forall>i<k. attempt_fails (env i) outfile) \<and>
            sftp_read (env k) outfile = Inl (IOError m) \<and>
            exec_command (env k) (''cat '' @ outfile) = Inr (0, out, err)"
  then have p: "\<forall>i\<in>set [0..<k]. attempt_fails (env i) outfile" by simp
  from h have k: "k < 10" by simp
  from h have s: "sftp_read (env k) outfile = Inl (IOError m)"
    and e: "exec_command (env k) (''cat '' @ outfile) = Inr (0, out, err)" by simp_all
  have "get_job_output_loop env outfile 10 ([0..<k] @ k # [Suc k..<10]) 0 = (Inr (py_strip out), 3 * k)"
    using filter_retries_upt [of k] k
    by (simp only: loop_failed_prefix [where env=env, OF p] loop_cat_success [where env=env and i=k, OF s e]) simp
  with upt_split [OF k] show "Paramiko_get_job_output c env job_id = (Inr (py_strip out), 3 * k)"
    by (simp add: Paramiko_get_job_output_unfold assms [symmetric])
next
  fix k e
  assume h: "k < 10 \<and> (\<forall>i<k. attempt_fails (env i) outfile) \<and>
            sftp_read (env k) outfile = Inl e \<and> (\<forall>m. e \<noteq> IOError m)"
  then have p: "\<forall>i\<in>set [0..<k]. attempt_fails (env i) outfile" by simp
  from h have k: "k < 10" by simp
  from h have s: "sftp_read (env k) outfile = Inl e" and n: "\<forall>m. e \<noteq> IOError m" by simp_all
  have "get_job_output_loop env outfile 10 ([0..<k] @ k # [Suc k..<10]) 0 = (Inl e, 3 * k)"
    using filter_retries_upt [of k] k
    by (simp only: loop_failed_prefix [where env=env, OF p]
          loop_sftp_raises [where env=env and i=k, OF s n]) simp
  with upt_split [OF k] show "Paramiko_get_job_output c env job_id = (Inl e, 3 * k)"
    by (simp add: Paramiko_get_job_output_unfold assms [symmetric])
next
  fix k m e
  assume h: "k < 10 \<and> (\<forall>i<k. attempt_fails (env i) outfile) \<and>
            sftp_read (env k) outfile = Inl (IOError m) \<and>
            exec_command (env k) (''cat '' @ outfile) = Inl e"
  then have p: "\<forall>i\<in>set [0..<k]. attempt_fails (env i) outfile" by simp
  from h have k: "k < 10" by simp
  from h have s: "sftp_read (env k) outfile = Inl (IOError m)"
    and x: "exec_command (env k) (''cat '' @ outfile) = Inl e" by simp_all
  have "get_job_output_loop env outfile 10 ([0..<k] @ k # [Suc k..<10]) 0 = (Inl e, 3 * k)"
    using filter_retries_upt [of k] k
    by (simp only: loop_failed_prefix [where env=env, OF p]
          loop_cat_raises [where env=env and i=k, OF s x]) simp
  with upt_split [OF k] show "Paramiko_get_job_output c env job_id = (Inl e, 3 * k)"
    by (simp add: Paramiko_get_job_output_unfold assms [symmetric])
next
  from loop_sleep_bound [of env _ 10 "[0..<10]" 0] filter_retries_upt [of 10]
  show "snd (Paramiko_get_job_output c env job_id) \<le> 27"
    by (simp add: Paramiko_get_job_output_unfold)
qed

theorem Paramiko_get_job_output_retries_witness:
  "Paramiko_get_job_output \<lparr>job_files = [''77'' \<mapsto> ''custom-%j.log'']\<rparr> (\<lambda>i. quiet_remote) ''77''
     = (Inr ''Output file custom-77.log not found after retries.'', 27) \<and>
   Paramiko_get_job_output \<lparr>job_files = [''77'' \<mapsto> ''custom-%j.log'']\<rparr>
       (\<lambda>i. if i < 2 then quiet_remote else ready_remote) ''77''
     = (Inr (''hello'' @ [CHR 0x0A]), 6) \<and>
   Paramiko_get_job_output \<lparr>job_files = [''77'' \<mapsto> ''custom-%j.log'']\<rparr>
       (\<lambda>i. if i < 1 then quiet_remote else cat_remote) ''77''
     = (Inr ''hello'', 3) \<and>
   Paramiko_get_job_output \<lparr>job_files = [''77'' \<mapsto> ''custom-%j.log'']\<rparr>
       (\<lambda>i. if i < 1 then quiet_remote else dropped_remote) ''77''
     = (Inl (OtherError ''SSH session not active''), 3) \<and>
   Paramiko_get_job_output \<lparr>job_files = [''77'' \<mapsto> ''custom-%j.log'']\<rparr>
       (\<lambda>i. if i < 1 then quiet_remote else cat_raises_remote) ''77''
     = (Inl (OtherError ''SSH session not active''), 3)"
proof -
  let ?c = "\<lparr>job_files = [''77'' \<mapsto> ''custom-%j.log'']\<rparr>"
  have o: "''custom-77.log'' =
             py_replace (case job_files ?c ''77'' of None \<Rightarrow> ''slurm-%j.out'' | Some p \<Rightarrow> p) ''%j'' ''77''"
    by (simp add: replace_custom)
  have a: "\<forall>i<10. attempt_fails ((\<lambda>i::nat. quiet_remote) i) ''custom-77.log''"
    by (simp add: quiet_remote_fails)
  have b: "(2::nat) < 10 \<and>
           (\<forall>i<2. attempt_fails ((\<lambda>i::nat. if i < 2 then quiet_remote else ready_remote) i) ''custom-77.log'') \<and>
           sftp_read ((\<lambda>i::nat. if i < 2 then quiet_remote else ready_remote) 2) ''custom-77.log''
             = Inr (''hello'' @ [CHR 0x0A])"
    by (simp add: quiet_remote_fails ready_remote_def)
  have d: "(1::nat) < 10 \<and>
           (\<forall>i<1. attempt_fails ((\<lambda>i::nat. if i < 1 then quiet_remote else cat_remote) i) ''custom-77.log'') \<and>
           sftp_read ((\<lambda>i::nat. if i < 1 then quiet_remote else cat_remote) 1) ''custom-77.log''
             = Inl (IOError ''Failure'') \<and>
           exec_command ((\<lambda>i::nat. if i < 1 then quiet_remote else cat_remote) 1) (''cat '' @ ''custom-77.log'')
             = Inr (0, ''hello'' @ [CHR 0x0A], [])"
    by (simp add: quiet_remote_fails cat_remote_def)
  have s: "py_strip (''hello'' @ [CHR 0x0A]) = ''hello''"
    by (simp add: py_strip_def isspace_def whitespace_def)
  note t1 = Paramiko_get_job_output_retries [OF o, of "\<lambda>i. quiet_remote"]
  note t2 = Paramiko_get_job_output_retries [OF o, of "\<lambda>i. if i < 2 then quiet_remote else ready_remote"]
  note t3 = Paramiko_get_job_output_retries [OF o, of "\<lambda>i. if i < 1 then quiet_remote else cat_remote"]
  from t1 [THEN conjunct1, THEN mp, OF a] have 1: "Paramiko_get_job_output ?c (\<lambda>i. quiet_remote) ''77''
     = (Inr ''Output file custom-77.log not found after retries.'', 27)" by simp
  from t2 [THEN conjunct2, THEN conjunct1, THEN spec, THEN spec, THEN mp, OF b]
  have 2: "Paramiko_get_job_output ?c (\<lambda>i. if i < 2 then quiet_remote else ready_remote) ''77''
     = (Inr (''hello'' @ [CHR 0x0A]), 6)" by simp
  from t3 [THEN conjunct2, THEN conjunct2, THEN conjunct1, THEN spec, THEN spec, THEN spec, THEN spec, THEN mp, OF d] s
  have 3: "Paramiko_get_job_output ?c (\<lambda>i. if i < 1 then quiet_remote else cat_remote) ''77''
     = (Inr ''hello'', 3)" by simp
  have g: "(1::nat) < 10 \<and>
           (\<forall>i<1. attempt_fails ((\<lambda>i::nat. if i < 1 then quiet_remote else dropped_remote) i) ''custom-77.log'') \<and>
           sftp_read ((\<lambda>i::nat. if i < 1 then quiet_remote else dropped_remote) 1) ''custom-77.log''
             = Inl (OtherError ''SSH session not active'') \<and>
           (\<forall>m. OtherError ''SSH session not active'' \<noteq> IOError m)"
    by (simp add: quiet_remote_fails dropped_remote_def)
  have h: "(1::nat) < 10 \<and>
           (\<forall>i<1. attempt_fails ((\<lambda>i::nat. if i < 1 then quiet_remote else cat_raises_remote) i) ''custom-77.log'') \<and>
           sftp_read ((\<lambda>i::nat. if i < 1 then quiet_remote else cat_raises_remote) 1) ''custom-77.log''
             = Inl (IOError ''[Errno 2] No such file'') \<and>
           exec_command ((\<lambda>i::nat. if i < 1 then quiet_remote else cat_raises_remote) 1)
               (''cat '' @ ''custom-77.log'')
             = Inl (OtherError ''SSH session not active'')"
    by (simp add: quiet_remote_fails cat_raises_remote_def)
  note t4 = Paramiko_get_job_output_retries [OF o, of "\<lambda>i. if i < 1 then quiet_remote else dropped_remote"]
  note t5 = Paramiko_get_job_output_retries [OF o, of "\<lambda>i. if i < 1 then quiet_remote else cat_raises_remote"]
  from t4 [THEN conjunct2, THEN conjunct2, THEN conjunct2, THEN conjunct1, THEN spec, THEN spec,
           THEN mp, OF g]
  have 4: "Paramiko_get_job_output ?c (\<lambda>i. if i < 1 then quiet_remote else dropped_remote) ''77''
     = (Inl (OtherError ''SSH session not active''), 3)" by simp
  from t5 [THEN conjunct2, THEN conjunct2, THEN conjunct2, THEN conjunct2, THEN conjunct1,
           THEN spec, THEN spec, THEN spec, THEN mp, OF h]
  have 5: "Paramiko_get_job_output ?c (\<lambda>i. if i < 1 then quiet_remote else cat_raises_remote) ''77''
     = (Inl (OtherError ''SSH session not active''), 3)" by simp
  from 1 2 3 4 5 show ?thesis by (intro conjI)
qed



text \<open>
  Claim C8. On the remote client, once the script is uploaded and \<open>sbatch\<close> has run:
  a non-zero exit status makes \<open>submit_job\<close> raise an exception whose text carries
  the command's standard error; with exit status 0 the last whitespace-delimited token of
  the standard output is the new job id, under which the pattern is stored. Whenever
  \<open>submit_job\<close> raises, the registry \<open>job_files\<close> is unchanged.
\<close>

theorem Paramiko_submit_job_parsing:
  assumes "sftp_write env (''job_'' @ py_str (py_int now) @ ''.sh'') script_content = None"
    and "exec_command env (''sbatch '' @ ''job_'' @ py_str (py_int now) @ ''.sh'') = Inr (code, out, err)"
  shows "(code \<noteq> 0 \<longrightarrow>
            Paramiko_submit_job c env script_content now =
              (Inl (Exception (''sbatch failed: '' @ py_strip err)), c)) \<and>
         (code = 0 \<and> py_split (py_strip out) \<noteq> [] \<longrightarrow>
            fst (Paramiko_submit_job c env script_content now) = Inr (last (py_split (py_strip out))) \<and>
            (\<exists>pattern. snd (Paramiko_submit_job c env script_content now) =
               c\<lparr>job_files := (job_files c)(last (py_split (py_strip out)) \<mapsto> pattern)\<rparr>)) \<and>
         (code = 0 \<and> py_split (py_strip out) = [] \<longrightarrow>
            Paramiko_submit_job c env script_content now =
              (Inl (Exception (''Could not parse job ID from sbatch output: '' @ py_strip out)), c)) \<and>
         (\<forall>e. fst (Paramiko_submit_job c env script_content now) = Inl e \<longrightarrow>
            snd (Paramiko_submit_job c env script_content now) = c)"
proof (intro conjI impI allI)
  assume "code \<noteq> 0"
  with assms show "Paramiko_submit_job c env script_content now =
              (Inl (Exception (''sbatch failed: '' @ py_strip err)), c)"
    by (rule submit_rejected)
next
  assume h: "code = 0 \<and> py_split (py_strip out) \<noteq> []"
  obtain pattern where p: "scan_output_pattern (py_splitlines script_content) ''slurm-%j.out'' = Inr pattern"
    using scan_output_pattern_total by blast
  from h assms(2) have e: "exec_command env (''sbatch '' @ ''job_'' @ py_str (py_int now) @ ''.sh'') = Inr (0, out, err)"
    by simp
  from h have ne: "py_split (py_strip out) \<noteq> []" by simp
  note s = submit_accepted [OF assms(1) e ne p, of c]
  from s show "fst (Paramiko_submit_job c env script_content now) = Inr (last (py_split (py_strip out)))"
    by simp
  from s show "\<exists>pattern. snd (Paramiko_submit_job c env script_content now) =
               c\<lparr>job_files := (job_files c)(last (py_split (py_strip out)) \<mapsto> pattern)\<rparr>"
    by auto
next
  assume h: "code = 0 \<and> py_split (py_strip out) = []"
  from h assms(2) have e: "exec_command env (''sbatch '' @ ''job_'' @ py_str (py_int now) @ ''.sh'') = Inr (0, out, err)"
    by simp
  from h have "py_split (py_strip out) = []" by simp
  with assms(1) e show "Paramiko_submit_job c env script_content now =
              (Inl (Exception (''Could not parse job ID from sbatch output: '' @ py_strip out)), c)"
    by (rule submit_unparsed)
next
  fix e
  assume "fst (Paramiko_submit_job c env script_content now) = Inl e"
  then show "snd (Paramiko_submit_job c env script_content now) = c"
    by (rule submit_failure_unchanged)
qed

theorem Paramiko_submit_job_parsing_witness:
  "Paramiko_submit_job Paramiko_init rejecting_remote custom_script 1700000000.5
     = (Inl (Exception ''sbatch failed: sbatch: error: invalid partition specified''), Paramiko_init) \<and>
   fst (Paramiko_submit_job Paramiko_init running_remote custom_script 1700000000.5) = Inr ''77''"
proof -
  have w1: "sftp_write rejecting_remote (''job_'' @ py_str (py_int 1700000000.5) @ ''.sh'') custom_script = None"
    by (simp add: rejecting_remote_def)
  have e1: "exec_command rejecting_remote (''sbatch '' @ ''job_'' @ py_str (py_int 1700000000.5) @ ''.sh'')
              = Inr (1, [], ''sbatch: error: invalid partition specified'' @ [CHR 0x0A])"
    by (simp add: rejecting_remote_def)
  have s1: "py_strip (''sbatch: error: invalid partition specified'' @ [CHR 0x0A])
              = ''sbatch: error: invalid partition specified''"
    by (simp add: py_strip_def ws_simps)
  from Paramiko_submit_job_parsing [OF w1 e1, of Paramiko_init] s1
  have 1: "Paramiko_submit_job Paramiko_init rejecting_remote custom_script 1700000000.5
     = (Inl (Exception ''sbatch failed: sbatch: error: invalid partition specified''), Paramiko_init)"
    by simp
  have w2: "sftp_write running_remote (''job_'' @ py_str (py_int 1700000000.5) @ ''.sh'') custom_script = None"
    by (simp add: running_remote_def)
  have "(0::int) = 0 \<and> py_split (py_strip (''Submitted batch job 77'' @ [CHR 0x0A])) \<noteq> []"
    by (simp only: sbatch_reply_split) simp
  from Paramiko_submit_job_parsing [OF w2 sbatch_reply, of Paramiko_init, THEN conjunct2, THEN conjunct1, THEN mp, OF this]
  have 2: "fst (Paramiko_submit_job Paramiko_init running_remote custom_script 1700000000.5) = Inr ''77''"
    by (simp only: sbatch_reply_split) simp
  from 1 2 show ?thesis by (rule conjI)
qed




text \<open>
  Claim C10. For the simulated client, \<open>get_job_output\<close> returns the text
  "No output available." for an identifier that no \<open>submit_job\<close> of the session
  has returned, and the empty string for an identifier that was issued and for which no
  \<open>get_job_status\<close> has returned COMPLETED since.
\<close>

theorem Mock_get_job_output_without_completion:
  "((\<forall>a\<in>set calls. \<not> issues job_id a) \<longrightarrow>
      Mock_get_job_output (mock_exec Mock_init calls) job_id = ''No output available.'') \<and>
   ((\<forall>(a, ret)\<in>set (zip later (mock_returns (snd (Mock_submit_job c script_content now r)) later)).
        polls (py_str r) a \<longrightarrow> ret \<noteq> ''COMPLETED'') \<longrightarrow>
      fst (Mock_submit_job c script_content now r) = py_str r \<and>
      Mock_get_job_output (mock_exec (snd (Mock_submit_job c script_content now r)) later) (py_str r) = [])"
proof (intro conjI impI)
  assume "\<forall>a\<in>set calls. \<not> issues job_id a"
  then have "jobs (mock_exec Mock_init calls) job_id = None"
    by (rule mock_exec_not_issued) (simp add: Mock_init_def)
  then show "Mock_get_job_output (mock_exec Mock_init calls) job_id = ''No output available.''"
    by (simp add: Mock_get_job_output_def)
next
  show "fst (Mock_submit_job c script_content now r) = py_str r"
    by (simp add: Mock_submit_job_def Let_def)
next
  let ?c = "snd (Mock_submit_job c script_content now r)"
  assume h: "\<forall>(a, ret)\<in>set (zip later (mock_returns ?c later)).
               polls (py_str r) a \<longrightarrow> ret \<noteq> ''COMPLETED''"
  have "\<exists>job'. jobs (mock_exec ?c later) (py_str r) = Some job' \<and> output job' = []"
    by (rule empty_output_exec [OF Mock_submit_same _ h]) simp
  then show "Mock_get_job_output (mock_exec ?c later) (py_str r) = []"
    by (auto simp: Mock_get_job_output_def)
qed

theorem Mock_get_job_output_without_completion_witness:
  "Mock_get_job_output (mock_exec Mock_init [Submit ''echo hello'' 100 1234, Status ''1234'' 106]) ''7777''
     = ''No output available.'' \<and>
   Mock_get_job_output
     (mock_exec (snd (Mock_submit_job Mock_init ''echo hello'' 100 1234))
        [Status ''1234'' 101, Status ''1234'' 103, Output ''1234'']) ''1234'' = []"
proof -
  have id: "py_str 1234 = ''1234''" by (simp add: py_str_def str_nat.simps digit_def)
  let ?c = "snd (Mock_submit_job Mock_init ''echo hello'' 100 1234)"
  let ?j = "\<lparr>status = ''PENDING'', script = ''echo hello'', submitted_at = 100, output = ''''\<rparr>"
  have cj: "jobs ?c ''1234'' = Some ?j"
    using Mock_submit_same [of Mock_init "''echo hello''" 100 1234] by (simp add: id)
  have a: "\<forall>a\<in>set [Submit ''echo hello'' 100 1234, Status ''1234'' 106]. \<not> issues ''7777'' a"
    by (simp add: id)
  have b: "\<forall>(a, ret)\<in>set (zip [Status ''1234'' 101, Status ''1234'' 103, Output ''1234'']
             (mock_returns ?c [Status ''1234'' 101, Status ''1234'' 103, Output ''1234''])).
             polls (py_str 1234) a \<longrightarrow> ret \<noteq> ''COMPLETED''"
    using cj by (simp add: id Mock_get_job_status_def Let_def float_sub_examples)
  from Mock_get_job_output_without_completion
    [of "[Submit ''echo hello'' 100 1234, Status ''1234'' 106]" "''7777''"
        "[Status ''1234'' 101, Status ''1234'' 103, Output ''1234'']" Mock_init "''echo hello''" 100 1234]
    a b
  show ?thesis by (simp only: id)
qed

end
